theory Spec2Isabelle
  imports Complex_Main "HOL-Library.Sublist"
begin

section \<open>Strings and numbers as the handlers use them\<close>

text \<open>
  The handlers build their output with template literals. A number that is placed in a
  template (\<^verbatim>\<open>${i + 1}\<close>, \<^verbatim>\<open>${trackIds.length}\<close>) is a
  non-negative integer in every place the handlers do so, and JavaScript renders it in
  decimal without leading zeros.
\<close>

definition digit_char :: "nat \<Rightarrow> char" where
  "digit_char k = ''0123456789'' ! k"

definition digit_value :: "char \<Rightarrow> nat" where
  "digit_value c = of_char c - 48"

fun decimal :: "nat \<Rightarrow> string" where
  "decimal n = (if n < 10 then [digit_char n]
                else decimal (n div 10) @ [digit_char (n mod 10)])"

declare decimal.simps [simp del]

text \<open>\<^verbatim>\<open>Array.prototype.join\<close>: the elements separated by \<open>sep\<close>.\<close>

fun join :: "string \<Rightarrow> string list \<Rightarrow> string" where
  "join sep [] = []"
| "join sep [x] = x"
| "join sep (x # y # ys) = x @ sep @ join sep (y # ys)"

text \<open>
  \<^verbatim>\<open>xs.map((x, i) => f(x, i))\<close>: the callback receives the element and its
  0-based index.
\<close>

definition map_indexed :: "('a \<Rightarrow> nat \<Rightarrow> 'b) \<Rightarrow> 'a list \<Rightarrow> 'b list" where
  "map_indexed f xs = map (\<lambda>(x, i). f x i) (zip xs [0..<length xs])"

text \<open>
  Truthiness of an optional string: \<^verbatim>\<open>undefined\<close> and the empty string are
  falsy, every other string is truthy.
\<close>

definition truthy :: "string option \<Rightarrow> bool" where
  "truthy s = (case s of None \<Rightarrow> False | Some v \<Rightarrow> v \<noteq> [])"

text \<open>\<^verbatim>\<open>s || d\<close> on an optional string.\<close>

definition or_else :: "string option \<Rightarrow> string \<Rightarrow> string" where
  "or_else s d = (case s of None \<Rightarrow> d | Some v \<Rightarrow> if v = [] then d else v)"

section \<open>Duration formatting\<close>

text \<open>\<^verbatim>\<open>s.padStart(2, '0')\<close>.\<close>

definition padStart2 :: "string \<Rightarrow> string" where
  "padStart2 s = replicate (2 - length s) (CHR ''0'') @ s"

text \<open>
  Modelled from the spec: \<^verbatim>\<open>formatDuration\<close> is imported from
  \<^verbatim>\<open>./utils.js\<close>, which is not among the source files. The specification says:
  given a millisecond count, produce \<^verbatim>\<open>M:SS\<close> with zero-padded seconds
  (125000 ms gives \<^verbatim>\<open>2:05\<close>), the seconds being rounded down.
\<close>

definition formatDuration :: "nat \<Rightarrow> string" where
  "formatDuration ms =
     (let minutes = ms div 60000;
          seconds = (ms mod 60000) div 1000
      in decimal minutes @ '':'' @ padStart2 (decimal seconds))"

text \<open>
  The inverse computation the specification names: read the minutes before the colon and
  the seconds after it, and return \<open>minutes * 60000 + seconds * 1000\<close>.
\<close>

definition read_decimal :: "string \<Rightarrow> nat" where
  "read_decimal s = foldl (\<lambda>acc c. 10 * acc + digit_value c) 0 s"

definition duration_minutes :: "string \<Rightarrow> nat" where
  "duration_minutes s = read_decimal (takeWhile (\<lambda>c. c \<noteq> CHR '':'') s)"

definition duration_seconds :: "string \<Rightarrow> nat" where
  "duration_seconds s = read_decimal (drop 1 (dropWhile (\<lambda>c. c \<noteq> CHR '':'') s))"

definition duration_inverse :: "string \<Rightarrow> nat" where
  "duration_inverse s = duration_minutes s * 60000 + duration_seconds s * 1000"

section \<open>Exceptions, effects and the result envelope\<close>

text \<open>
  A value thrown in JavaScript is either an \<^verbatim>\<open>Error\<close> object, which has a
  message, or some other value, of which the catch blocks take \<^verbatim>\<open>String(error)\<close>.
\<close>

datatype thrown = ErrorObject string | OtherValue string

text \<open>\<^verbatim>\<open>error instanceof Error ? error.message : String(error)\<close>\<close>

definition error_text :: "thrown \<Rightarrow> string" where
  "error_text e = (case e of ErrorObject m \<Rightarrow> m | OtherValue v \<Rightarrow> v)"

text \<open>
  A content block as the handlers write it: a type tag, a text payload and, in two
  handlers, an \<^verbatim>\<open>isError\<close> field inside the block. The envelope is the object
  with the single field \<^verbatim>\<open>content\<close>.
\<close>

record content_block =
  block_type :: string
  block_text :: string
  block_isError :: "bool option"

record envelope =
  content :: "content_block list"

definition text_block :: "string \<Rightarrow> content_block" where
  "text_block s = \<lparr>block_type = ''text'', block_text = s, block_isError = None\<rparr>"

definition error_block :: "string \<Rightarrow> content_block" where
  "error_block s = \<lparr>block_type = ''text'', block_text = s, block_isError = Some True\<rparr>"

section \<open>The music service client\<close>

record artist =
  artist_name :: string
  artist_id :: string

record track =
  track_name :: string
  track_id :: string
  track_artists :: "artist list"
  track_duration_ms :: nat

record album =
  album_name :: string
  album_id :: string
  album_artists :: "artist list"

record playlist =
  playlist_name :: string
  playlist_description :: string
  playlist_owner_display_name :: string
  playlist_id :: string

text \<open>
  A search result carries a page per requested type; a page that is absent is \<open>None\<close>.
  The handler reads playlist entries with \<^verbatim>\<open>?.\<close>, so an entry may be null
  (\<open>None\<close>).
\<close>

record search_results =
  result_tracks :: "track list option"
  result_albums :: "album list option"
  result_playlists :: "playlist option list option"

text \<open>
  An item that the handlers receive as \<^verbatim>\<open>any\<close> and test with
  \<^verbatim>\<open>isTrack\<close>: \<open>item_artists\<close> is \<open>None\<close> when the field is not an array,
  \<open>item_album\<close> is \<open>None\<close> when the field is falsy, and the album's name is \<open>None\<close>
  when it is not a string.
\<close>

record album_ref =
  ref_name :: "string option"

record playable =
  item_type :: string
  item_name :: string
  item_id :: string
  item_duration_ms :: nat
  item_artists :: "artist list option"
  item_album :: "album_ref option"

record SpotifyTrack =
  st_name :: string
  st_id :: string
  st_duration_ms :: nat
  st_artists :: "artist list"
  st_album_name :: string

record playback_state =
  is_playing :: bool
  progress_ms :: "nat option"
  item :: "playable option"

record user_playlist =
  up_name :: string
  up_id :: string
  up_tracks_total :: "nat option"

record playlist_entry =
  entry_track :: "playable option"

record top_item =
  top_name :: string
  top_id :: string
  top_artists :: "artist list option"

datatype search_type = SearchTrack | SearchAlbum | SearchPlaylist

datatype item_type = Track | Album | Artist | Playlist

datatype action = Pause | SkipToNext | SkipToPrevious | Resume

datatype track_ref = TrackRef (ref_uri: string)

fun search_type_name :: "search_type \<Rightarrow> string" where
  "search_type_name SearchTrack = ''track''"
| "search_type_name SearchAlbum = ''album''"
| "search_type_name SearchPlaylist = ''playlist''"

fun item_type_name :: "item_type \<Rightarrow> string" where
  "item_type_name Track = ''track''"
| "item_type_name Album = ''album''"
| "item_type_name Artist = ''artist''"
| "item_type_name Playlist = ''playlist''"

text \<open>
  The methods of the client that the handlers call, each with the arguments the handlers
  pass. An argument the handler passes as \<^verbatim>\<open>undefined\<close> is \<open>None\<close>.
\<close>

datatype api_call =
    ApiSearch string "search_type list" "string option" real real
  | ApiGetCurrentlyPlayingTrack
  | ApiPlaylists real
  | ApiGetPlaylistItems string "string option" "string option" real
  | ApiGetRecentlyPlayedTracks real
  | ApiFollowedArtists "string option" real
  | ApiTopItems string string real
  | ApiStartResumePlayback string "string option" "string list option"
  | ApiPausePlayback string
  | ApiSkipToNext string
  | ApiSkipToPrevious string
  | ApiProfile
  | ApiCreatePlaylist string string "string option" bool
  | ApiAddItemsToPlaylist string "string list" "real option"
  | ApiAddItemToPlaybackQueue string string
  | ApiRemoveItemsFromPlaylist string "track_ref list"

text \<open>
  The external client is a parameter: what each method answers, a thrown value (\<open>Inl\<close>)
  or a result (\<open>Inr\<close>).
\<close>

record spotifyApi =
  api_search :: "string \<Rightarrow> search_type list \<Rightarrow> string option \<Rightarrow> real \<Rightarrow> real
                   \<Rightarrow> thrown + search_results"
  player_getCurrentlyPlayingTrack :: "thrown + playback_state option"
  currentUser_playlists :: "real \<Rightarrow> thrown + user_playlist list"
  playlists_getPlaylistItems :: "string \<Rightarrow> string option \<Rightarrow> string option \<Rightarrow> real
                   \<Rightarrow> thrown + playlist_entry list option"
  player_getRecentlyPlayedTracks :: "real \<Rightarrow> thrown + playlist_entry list"
  currentUser_followedArtists :: "string option \<Rightarrow> real \<Rightarrow> thrown + artist list"
  currentUser_topItems :: "string \<Rightarrow> string \<Rightarrow> real \<Rightarrow> thrown + top_item list"
  player_startResumePlayback :: "string \<Rightarrow> string option \<Rightarrow> string list option
                   \<Rightarrow> thrown + unit"
  player_pausePlayback :: "string \<Rightarrow> thrown + unit"
  player_skipToNext :: "string \<Rightarrow> thrown + unit"
  player_skipToPrevious :: "string \<Rightarrow> thrown + unit"
  currentUser_profile :: "thrown + string"
  playlists_createPlaylist :: "string \<Rightarrow> string \<Rightarrow> string option \<Rightarrow> bool \<Rightarrow> thrown + string"
  playlists_addItemsToPlaylist :: "string \<Rightarrow> string list \<Rightarrow> real option \<Rightarrow> thrown + unit"
  player_addItemToPlaybackQueue :: "string \<Rightarrow> string \<Rightarrow> thrown + unit"
  playlists_removeItemsFromPlaylist :: "string \<Rightarrow> track_ref list \<Rightarrow> thrown + unit"

text \<open>
  An asynchronous computation is modelled by the client calls it makes, in order, and
  its outcome: a thrown value or a result.
\<close>

type_synonym 'a eff = "api_call list \<times> (thrown + 'a)"

definition resolve :: "'a \<Rightarrow> 'a eff" where
  "resolve x = ([], Inr x)"

definition call :: "api_call \<Rightarrow> thrown + 'a \<Rightarrow> 'a eff" where
  "call c answer = ([c], answer)"

text \<open>\<^verbatim>\<open>const x = await m; k(x)\<close>: a rejection of \<open>m\<close> is thrown on.\<close>

definition await :: "'a eff \<Rightarrow> ('a \<Rightarrow> 'b eff) \<Rightarrow> 'b eff" where
  "await m k =
     (case m of
        (t, Inl e) \<Rightarrow> (t, Inl e)
      | (t, Inr x) \<Rightarrow> (case k x of (t', r) \<Rightarrow> (t @ t', r)))"

text \<open>\<^verbatim>\<open>try { m } catch (error) { h(error) }\<close>\<close>

definition try_catch :: "'a eff \<Rightarrow> (thrown \<Rightarrow> 'a eff) \<Rightarrow> 'a eff" where
  "try_catch m h =
     (case m of
        (t, Inl e) \<Rightarrow> (case h e of (t', r) \<Rightarrow> (t @ t', r))
      | (t, Inr x) \<Rightarrow> (t, Inr x))"

section \<open>The request dispatcher\<close>

text \<open>
  The surroundings of a tool call: whether the dispatcher can obtain a valid credential
  (\<open>None\<close>) or fails with a thrown value while doing so, and the client.
\<close>

record env =
  credential :: "thrown option"
  client :: spotifyApi

text \<open>
  Modelled from the spec: \<^verbatim>\<open>handleSpotifyRequest\<close> is imported from
  \<^verbatim>\<open>./utils.js\<close>, which is not among the source files. The specification says
  that it accepts a single operation that receives a ready-to-use client, ensures the
  client holds a valid credential, invokes the operation exactly once, and returns its
  result or propagates failure; credential failure is one of its failure conditions.
\<close>

definition handleSpotifyRequest :: "env \<Rightarrow> (spotifyApi \<Rightarrow> 'a eff) \<Rightarrow> 'a eff" where
  "handleSpotifyRequest e operation =
     (case credential e of
        Some failure \<Rightarrow> ([], Inl failure)
      | None \<Rightarrow> operation (client e))"

section \<open>Read tools\<close>

definition dq :: string where
  "dq = [CHR 0x22]"

definition newline :: string where
  "newline = [CHR 0x0A]"

text \<open>\<^verbatim>\<open>artists.map((a) => a.name).join(', ')\<close>\<close>

definition artist_names :: "artist list \<Rightarrow> string" where
  "artist_names artists = join '', '' (map artist_name artists)"

text \<open>
  The type guard \<^verbatim>\<open>isTrack(item): item is SpotifyTrack\<close>. It holds when the
  item's type is \<^verbatim>\<open>'track'\<close>, its artists are an array, it has an album and the
  album's name is a string; the result is then the item seen at the narrowed type.
\<close>

definition isTrack :: "playable \<Rightarrow> SpotifyTrack option" where
  "isTrack it =
     (if item_type it = ''track'' then
        (case item_artists it of
           None \<Rightarrow> None
         | Some artists \<Rightarrow>
             (case item_album it of
                None \<Rightarrow> None
              | Some al \<Rightarrow>
                  (case ref_name al of
                     None \<Rightarrow> None
                   | Some n \<Rightarrow>
                       Some \<lparr>st_name = item_name it, st_id = item_id it,
                             st_duration_ms = item_duration_ms it,
                             st_artists = artists, st_album_name = n\<rparr>)))
      else None)"

subsection \<open>searchSpotify\<close>

record search_args =
  query :: string
  searchType :: search_type
  limit :: "real option"
  offset :: "real option"

definition search_track_line :: "track \<Rightarrow> nat \<Rightarrow> string" where
  "search_track_line t i =
     (let artists = artist_names (track_artists t);
          duration = formatDuration (track_duration_ms t)
      in decimal (i + 1) @ ''. '' @ dq @ track_name t @ dq @ '' by '' @ artists
           @ '' ('' @ duration @ '') - ID: '' @ track_id t)"

definition search_album_line :: "album \<Rightarrow> nat \<Rightarrow> string" where
  "search_album_line a i =
     (let artists = artist_names (album_artists a)
      in decimal (i + 1) @ ''. '' @ dq @ album_name a @ dq @ '' by '' @ artists
           @ '' - ID: '' @ album_id a)"

text \<open>
  For a null entry every \<^verbatim>\<open>playlist?.field\<close> is \<^verbatim>\<open>undefined\<close>: the name
  and the description fall back through \<^verbatim>\<open>??\<close>, the owner and the id are
  rendered by the template as \<^verbatim>\<open>undefined\<close>.
\<close>

definition search_playlist_line :: "playlist option \<Rightarrow> nat \<Rightarrow> string" where
  "search_playlist_line p i =
     decimal (i + 1) @ ''. '' @ dq
       @ (case p of None \<Rightarrow> ''Unknown Playlist'' | Some pl \<Rightarrow> playlist_name pl)
       @ '' (''
       @ (case p of None \<Rightarrow> ''No description'' | Some pl \<Rightarrow> playlist_description pl)
       @ '' tracks)'' @ dq @ '' by ''
       @ (case p of None \<Rightarrow> ''undefined'' | Some pl \<Rightarrow> playlist_owner_display_name pl)
       @ '' - ID: ''
       @ (case p of None \<Rightarrow> ''undefined'' | Some pl \<Rightarrow> playlist_id pl)"

fun formattedResults :: "search_type \<Rightarrow> search_results \<Rightarrow> string" where
  "formattedResults SearchTrack results =
     (case result_tracks results of
        Some items \<Rightarrow> join newline (map_indexed search_track_line items)
      | None \<Rightarrow> [])"
| "formattedResults SearchAlbum results =
     (case result_albums results of
        Some items \<Rightarrow> join newline (map_indexed search_album_line items)
      | None \<Rightarrow> [])"
| "formattedResults SearchPlaylist results =
     (case result_playlists results of
        Some items \<Rightarrow> join newline (map_indexed search_playlist_line items)
      | None \<Rightarrow> [])"

definition searchSpotify_request ::
    "env \<Rightarrow> string \<Rightarrow> search_type \<Rightarrow> real \<Rightarrow> real \<Rightarrow> search_results eff" where
  "searchSpotify_request e q ty limitValue offsetValue =
     handleSpotifyRequest e (\<lambda>spotifyApi.
       call (ApiSearch q [ty] None limitValue offsetValue)
            (api_search spotifyApi q [ty] None limitValue offsetValue))"

definition searchSpotify :: "env \<Rightarrow> search_args \<Rightarrow> envelope eff" where
  "searchSpotify e args =
     (let q = query args;
          ty = searchType args;
          limitValue = (case limit args of None \<Rightarrow> 20 | Some l \<Rightarrow> l);
          offsetValue = (case offset args of None \<Rightarrow> 0 | Some v \<Rightarrow> v)
      in try_catch
           (await (searchSpotify_request e q ty limitValue offsetValue) (\<lambda>results.
              resolve \<lparr>content = [text_block
                (if length (formattedResults ty results) > 0
                 then ''# Search results for '' @ dq @ q @ dq @ '' (type: ''
                        @ search_type_name ty @ '')'' @ newline @ newline
                        @ formattedResults ty results
                 else ''No '' @ search_type_name ty @ '' results found for ''
                        @ dq @ q @ dq)]\<rparr>))
           (\<lambda>error. resolve \<lparr>content = [text_block
              (''Error searching for '' @ search_type_name ty @ ''s: '' @ error_text error)]\<rparr>))"

subsection \<open>getNowPlaying\<close>

definition getNowPlaying_request :: "env \<Rightarrow> playback_state option eff" where
  "getNowPlaying_request e =
     handleSpotifyRequest e (\<lambda>spotifyApi.
       call ApiGetCurrentlyPlayingTrack (player_getCurrentlyPlayingTrack spotifyApi))"

definition nothing_playing :: envelope where
  "nothing_playing = \<lparr>content = [text_block ''Nothing is currently playing on Spotify'']\<rparr>"

definition not_a_track :: envelope where
  "not_a_track = \<lparr>content = [text_block
     ''Currently playing item is not a track (might be a podcast episode)'']\<rparr>"

definition now_playing_text :: "playback_state \<Rightarrow> SpotifyTrack \<Rightarrow> string" where
  "now_playing_text currentTrack t =
     (let artists = artist_names (st_artists t);
          album = st_album_name t;
          duration = formatDuration (st_duration_ms t);
          progress = formatDuration (case progress_ms currentTrack of None \<Rightarrow> 0 | Some p \<Rightarrow> p);
          isPlaying = is_playing currentTrack
      in ''# Currently '' @ (if isPlaying then ''Playing'' else ''Paused'') @ newline @ newline
           @ ''**Track**: '' @ dq @ st_name t @ dq @ newline
           @ ''**Artist**: '' @ artists @ newline
           @ ''**Album**: '' @ album @ newline
           @ ''**Progress**: '' @ progress @ '' / '' @ duration @ newline
           @ ''**ID**: '' @ st_id t)"

definition getNowPlaying :: "env \<Rightarrow> envelope eff" where
  "getNowPlaying e =
     try_catch
       (await (getNowPlaying_request e) (\<lambda>currentTrack.
          case currentTrack of
            None \<Rightarrow> resolve nothing_playing
          | Some cur \<Rightarrow>
              (case item cur of
                 None \<Rightarrow> resolve nothing_playing
               | Some it \<Rightarrow>
                   (case isTrack it of
                      None \<Rightarrow> resolve not_a_track
                    | Some t \<Rightarrow> resolve \<lparr>content = [text_block (now_playing_text cur t)]\<rparr>))))
       (\<lambda>error. resolve \<lparr>content = [text_block
          (''Error getting current track: '' @ error_text error)]\<rparr>)"

subsection \<open>getUserPlaylists\<close>

definition getUserPlaylists_request :: "env \<Rightarrow> real \<Rightarrow> user_playlist list eff" where
  "getUserPlaylists_request e limitValue =
     handleSpotifyRequest e (\<lambda>spotifyApi.
       call (ApiPlaylists limitValue) (currentUser_playlists spotifyApi limitValue))"

definition user_playlist_line :: "user_playlist \<Rightarrow> nat \<Rightarrow> string" where
  "user_playlist_line p i =
     (let tracksTotal = (case up_tracks_total p of None \<Rightarrow> 0 | Some n \<Rightarrow> n)
      in decimal (i + 1) @ ''. '' @ dq @ up_name p @ dq @ '' ('' @ decimal tracksTotal
           @ '' tracks) - ID: '' @ up_id p)"

definition getUserPlaylists :: "env \<Rightarrow> real option \<Rightarrow> envelope eff" where
  "getUserPlaylists e limit_arg =
     (let limitValue = (case limit_arg of None \<Rightarrow> 50 | Some l \<Rightarrow> l)
      in await (getUserPlaylists_request e limitValue) (\<lambda>items.
           if length items = 0
           then resolve \<lparr>content = [text_block ''You don't have any playlists on Spotify'']\<rparr>
           else resolve \<lparr>content = [text_block
                  (''# Your Spotify Playlists'' @ newline @ newline
                     @ join newline (map_indexed user_playlist_line items))]\<rparr>))"

subsection \<open>getPlaylistTracks and getRecentlyPlayed\<close>

text \<open>The two handlers render an entry with the same callback.\<close>

definition entry_line :: "playlist_entry \<Rightarrow> nat \<Rightarrow> string" where
  "entry_line entry i =
     (case entry_track entry of
        None \<Rightarrow> decimal (i + 1) @ ''. [Removed track]''
      | Some tr \<Rightarrow>
          (case isTrack tr of
             Some t \<Rightarrow>
               (let artists = artist_names (st_artists t);
                    duration = formatDuration (st_duration_ms t)
                in decimal (i + 1) @ ''. '' @ dq @ st_name t @ dq @ '' by '' @ artists
                     @ '' ('' @ duration @ '') - ID: '' @ st_id t)
           | None \<Rightarrow> decimal (i + 1) @ ''. Unknown item''))"

definition getPlaylistTracks_request ::
    "env \<Rightarrow> string \<Rightarrow> real \<Rightarrow> playlist_entry list option eff" where
  "getPlaylistTracks_request e playlistId limitValue =
     handleSpotifyRequest e (\<lambda>spotifyApi.
       call (ApiGetPlaylistItems playlistId None None limitValue)
            (playlists_getPlaylistItems spotifyApi playlistId None None limitValue))"

definition getPlaylistTracks :: "env \<Rightarrow> string \<Rightarrow> real option \<Rightarrow> envelope eff" where
  "getPlaylistTracks e playlistId limit_arg =
     (let limitValue = (case limit_arg of None \<Rightarrow> 50 | Some l \<Rightarrow> l)
      in await (getPlaylistTracks_request e playlistId limitValue) (\<lambda>page.
           case page of
             None \<Rightarrow> resolve \<lparr>content = [text_block ''This playlist doesn't have any tracks'']\<rparr>
           | Some items \<Rightarrow>
               if length items = 0
               then resolve \<lparr>content = [text_block ''This playlist doesn't have any tracks'']\<rparr>
               else resolve \<lparr>content = [text_block
                      (''# Tracks in Playlist'' @ newline @ newline
                         @ join newline (map_indexed entry_line items))]\<rparr>))"

definition getRecentlyPlayed_request :: "env \<Rightarrow> real \<Rightarrow> playlist_entry list eff" where
  "getRecentlyPlayed_request e limitValue =
     handleSpotifyRequest e (\<lambda>spotifyApi.
       call (ApiGetRecentlyPlayedTracks limitValue) (player_getRecentlyPlayedTracks spotifyApi limitValue))"

definition getRecentlyPlayed :: "env \<Rightarrow> real option \<Rightarrow> envelope eff" where
  "getRecentlyPlayed e limit_arg =
     (let limitValue = (case limit_arg of None \<Rightarrow> 50 | Some l \<Rightarrow> l)
      in await (getRecentlyPlayed_request e limitValue) (\<lambda>items.
           if length items = 0
           then resolve \<lparr>content = [text_block
                  ''You don't have any recently played tracks on Spotify'']\<rparr>
           else resolve \<lparr>content = [text_block
                  (''# Recently Played Tracks'' @ newline @ newline
                     @ join newline (map_indexed entry_line items))]\<rparr>))"

subsection \<open>getFollowedArtists\<close>

definition getFollowedArtists_request ::
    "env \<Rightarrow> string option \<Rightarrow> real \<Rightarrow> artist list eff" where
  "getFollowedArtists_request e after limitValue =
     handleSpotifyRequest e (\<lambda>spotifyApi.
       call (ApiFollowedArtists after limitValue) (currentUser_followedArtists spotifyApi after limitValue))"

definition artist_line :: "artist \<Rightarrow> nat \<Rightarrow> string" where
  "artist_line a i =
     decimal (i + 1) @ ''. '' @ dq @ artist_name a @ dq @ '' - ID: '' @ artist_id a"

definition getFollowedArtists :: "env \<Rightarrow> string option \<Rightarrow> real option \<Rightarrow> envelope eff" where
  "getFollowedArtists e after limit_arg =
     (let limitValue = (case limit_arg of None \<Rightarrow> 50 | Some l \<Rightarrow> l)
      in await (getFollowedArtists_request e after limitValue) (\<lambda>items.
           if length items = 0
           then resolve \<lparr>content = [text_block ''User doesn't follow any artists on Spotify'']\<rparr>
           else resolve \<lparr>content = [text_block
                  (''# Artists You Follow'' @ newline @ newline
                     @ join newline (map_indexed artist_line items))]\<rparr>))"

subsection \<open>getUserTopItems\<close>

record top_items_args =
  topType :: string
  time_range :: string
  topLimit :: "real option"
  topOffset :: "real option"

definition getUserTopItems_request ::
    "env \<Rightarrow> string \<Rightarrow> string \<Rightarrow> real \<Rightarrow> top_item list eff" where
  "getUserTopItems_request e ty timeRange limitValue =
     handleSpotifyRequest e (\<lambda>spotifyApi.
       call (ApiTopItems ty timeRange limitValue) (currentUser_topItems spotifyApi ty timeRange limitValue))"

definition top_item_line :: "string \<Rightarrow> top_item \<Rightarrow> nat \<Rightarrow> string" where
  "top_item_line ty it i =
     (if ty = ''artists''
      then decimal (i + 1) @ ''. '' @ dq @ top_name it @ dq @ '' - ID: '' @ top_id it
      else if ty = ''tracks'' \<and> top_artists it \<noteq> None
      then (case top_artists it of
              Some artists \<Rightarrow>
                decimal (i + 1) @ ''. '' @ dq @ top_name it @ dq @ '' by ''
                  @ artist_names artists @ '' - ID: '' @ top_id it
            | None \<Rightarrow> decimal (i + 1) @ ''. '' @ dq @ top_name it @ dq @ '' - ID: '' @ top_id it)
      else decimal (i + 1) @ ''. '' @ dq @ top_name it @ dq @ '' - ID: '' @ top_id it)"

definition getUserTopItems :: "env \<Rightarrow> top_items_args \<Rightarrow> envelope eff" where
  "getUserTopItems e args =
     (let ty = topType args;
          timeRange = time_range args;
          limitValue = (case topLimit args of None \<Rightarrow> 50 | Some l \<Rightarrow> l)
      in await (getUserTopItems_request e ty timeRange limitValue) (\<lambda>items.
           if length items = 0
           then resolve \<lparr>content = [text_block
                  (''User doesn't have any top '' @ ty @ '' on Spotify'')]\<rparr>
           else resolve \<lparr>content = [text_block
                  (''# Top '' @ ty @ newline @ newline
                     @ join newline (map_indexed (top_item_line ty) items))]\<rparr>))"

section \<open>Player tools\<close>

text \<open>
  The arguments of \<^verbatim>\<open>playMusic\<close> and of \<^verbatim>\<open>addToQueue\<close>, which declare
  the same four optional fields: \<^verbatim>\<open>uri\<close>, \<^verbatim>\<open>type\<close>, \<^verbatim>\<open>id\<close>
  and \<^verbatim>\<open>deviceId\<close>.
\<close>

record uri_args =
  uri :: "string option"
  itemType :: "item_type option"
  itemId :: "string option"
  deviceId :: "string option"

text \<open>
  \<^verbatim>\<open>let spotifyUri = uri; if (!spotifyUri && type && id) spotifyUri =
  `spotify:${type}:${id}`\<close>, as both handlers have it.
\<close>

definition spotifyUri_of :: "string option \<Rightarrow> item_type option \<Rightarrow> string option \<Rightarrow> string option" where
  "spotifyUri_of u ty i =
     (case ty of
        None \<Rightarrow> u
      | Some t \<Rightarrow>
          (case i of
             None \<Rightarrow> u
           | Some v \<Rightarrow>
               if \<not> truthy u \<and> v \<noteq> [] then Some (''spotify:'' @ item_type_name t @ '':'' @ v)
               else u))"

definition must_provide :: envelope where
  "must_provide =
     \<lparr>content = [error_block ''Error: Must provide either a URI or both a type and ID'']\<rparr>"

definition playMusic_request ::
    "env \<Rightarrow> string option \<Rightarrow> item_type option \<Rightarrow> string option \<Rightarrow> unit eff" where
  "playMusic_request e spotifyUri ty dev =
     handleSpotifyRequest e (\<lambda>spotifyApi.
       let device = or_else dev []
       in case spotifyUri of
            None \<Rightarrow> call (ApiStartResumePlayback device None None)
                         (player_startResumePlayback spotifyApi device None None)
          | Some su \<Rightarrow>
              if su = [] then
                call (ApiStartResumePlayback device None None)
                     (player_startResumePlayback spotifyApi device None None)
              else if ty = Some Track then
                call (ApiStartResumePlayback device None (Some [su]))
                     (player_startResumePlayback spotifyApi device None (Some [su]))
              else
                call (ApiStartResumePlayback device (Some su) None)
                     (player_startResumePlayback spotifyApi device (Some su) None))"

definition playMusic :: "env \<Rightarrow> uri_args \<Rightarrow> envelope eff" where
  "playMusic e args =
     (let u = uri args; ty = itemType args; i = itemId args; dev = deviceId args
      in if \<not> truthy u \<and> (ty = None \<or> \<not> truthy i) then resolve must_provide
         else
           (let spotifyUri = spotifyUri_of u ty i
            in await (playMusic_request e spotifyUri ty dev) (\<lambda>_.
                 resolve \<lparr>content = [text_block
                   (''Started playing ''
                      @ (case ty of None \<Rightarrow> ''music'' | Some t \<Rightarrow> item_type_name t)
                      @ '' ''
                      @ (case i of
                           None \<Rightarrow> []
                         | Some v \<Rightarrow> if v = [] then [] else ''(ID: '' @ v @ '')''))]\<rparr>)))"

text \<open>
  The closure of \<^verbatim>\<open>playbackAction\<close> assigns \<^verbatim>\<open>successMessage\<close>; here it
  returns the message.
\<close>

definition playbackAction_request :: "env \<Rightarrow> action \<Rightarrow> string option \<Rightarrow> string eff" where
  "playbackAction_request e act dev =
     handleSpotifyRequest e (\<lambda>spotifyApi.
       let device = or_else dev []
       in case act of
            Pause \<Rightarrow>
              await (call (ApiPausePlayback device) (player_pausePlayback spotifyApi device))
                (\<lambda>_. resolve ''Playback paused'')
          | Resume \<Rightarrow>
              await (call (ApiStartResumePlayback device None None)
                          (player_startResumePlayback spotifyApi device None None))
                (\<lambda>_. resolve ''Playback resumed'')
          | SkipToNext \<Rightarrow>
              await (call (ApiSkipToNext device) (player_skipToNext spotifyApi device))
                (\<lambda>_. resolve ''Skipped to next track'')
          | SkipToPrevious \<Rightarrow>
              await (call (ApiSkipToPrevious device) (player_skipToPrevious spotifyApi device))
                (\<lambda>_. resolve ''Skipped to previous track''))"

definition playbackAction :: "env \<Rightarrow> action \<Rightarrow> string option \<Rightarrow> envelope eff" where
  "playbackAction e act dev =
     await (playbackAction_request e act dev) (\<lambda>successMessage.
       resolve \<lparr>content = [text_block successMessage]\<rparr>)"

section \<open>Write tools\<close>

definition createPlaylist_request ::
    "env \<Rightarrow> string \<Rightarrow> string option \<Rightarrow> bool \<Rightarrow> string eff" where
  "createPlaylist_request e playlistName description isPublic =
     handleSpotifyRequest e (\<lambda>spotifyApi.
       await (call ApiProfile (currentUser_profile spotifyApi)) (\<lambda>me_id.
         call (ApiCreatePlaylist me_id playlistName description isPublic)
              (playlists_createPlaylist spotifyApi me_id playlistName description isPublic)))"

definition createPlaylist ::
    "env \<Rightarrow> string \<Rightarrow> string option \<Rightarrow> bool option \<Rightarrow> envelope eff" where
  "createPlaylist e playlistName description public =
     (let isPublic = (case public of None \<Rightarrow> False | Some b \<Rightarrow> b)
      in await (createPlaylist_request e playlistName description isPublic) (\<lambda>result_id.
           resolve \<lparr>content = [text_block
             (''Successfully created playlist '' @ dq @ playlistName @ dq @ newline
                @ ''Playlist ID: '' @ result_id)]\<rparr>))"

definition no_track_ids :: envelope where
  "no_track_ids = \<lparr>content = [text_block ''Error: No track IDs provided'']\<rparr>"

definition addTracksToPlaylist_request ::
    "env \<Rightarrow> string \<Rightarrow> string list \<Rightarrow> real option \<Rightarrow> unit eff" where
  "addTracksToPlaylist_request e playlistId trackUris position =
     handleSpotifyRequest e (\<lambda>spotifyApi.
       call (ApiAddItemsToPlaylist playlistId trackUris position)
            (playlists_addItemsToPlaylist spotifyApi playlistId trackUris position))"

definition addTracksToPlaylist ::
    "env \<Rightarrow> string \<Rightarrow> string list \<Rightarrow> real option \<Rightarrow> envelope eff" where
  "addTracksToPlaylist e playlistId trackIds position =
     (if length trackIds = 0 then resolve no_track_ids
      else
        try_catch
          (let trackUris = map (\<lambda>tid. ''spotify:track:'' @ tid) trackIds
           in await (addTracksToPlaylist_request e playlistId trackUris position) (\<lambda>_.
                resolve \<lparr>content = [text_block
                  (''Successfully added '' @ decimal (length trackIds) @ '' track''
                     @ (if length trackIds = 1 then [] else ''s'')
                     @ '' to playlist (ID: '' @ playlistId @ '')'')]\<rparr>))
          (\<lambda>error. resolve \<lparr>content = [text_block
             (''Error adding tracks to playlist: '' @ error_text error)]\<rparr>))"

definition addToQueue_request :: "env \<Rightarrow> string \<Rightarrow> string option \<Rightarrow> unit eff" where
  "addToQueue_request e spotifyUri dev =
     handleSpotifyRequest e (\<lambda>spotifyApi.
       call (ApiAddItemToPlaybackQueue spotifyUri (or_else dev []))
            (player_addItemToPlaybackQueue spotifyApi spotifyUri (or_else dev [])))"

definition addToQueue :: "env \<Rightarrow> uri_args \<Rightarrow> envelope eff" where
  "addToQueue e args =
     (let u = uri args; ty = itemType args; i = itemId args; dev = deviceId args
      in case spotifyUri_of u ty i of
           None \<Rightarrow> resolve must_provide
         | Some su \<Rightarrow>
             if su = [] then resolve must_provide
             else await (addToQueue_request e su dev) (\<lambda>_.
                    resolve \<lparr>content = [text_block (''Added item '' @ su @ '' to queue'')]\<rparr>))"

definition removeTracksFromPlaylist_request ::
    "env \<Rightarrow> string \<Rightarrow> track_ref list \<Rightarrow> unit eff" where
  "removeTracksFromPlaylist_request e playlistId tracks =
     handleSpotifyRequest e (\<lambda>spotifyApi.
       call (ApiRemoveItemsFromPlaylist playlistId tracks)
            (playlists_removeItemsFromPlaylist spotifyApi playlistId tracks))"

definition removeTracksFromPlaylist :: "env \<Rightarrow> string \<Rightarrow> string list \<Rightarrow> envelope eff" where
  "removeTracksFromPlaylist e playlistId trackIds =
     (if length trackIds = 0 then resolve no_track_ids
      else
        try_catch
          (let tracks = map (\<lambda>tid. TrackRef (''spotify:track:'' @ tid)) trackIds
           in await (removeTracksFromPlaylist_request e playlistId tracks) (\<lambda>_.
                resolve \<lparr>content = [text_block
                  (''Successfully removed '' @ decimal (length trackIds) @ '' track''
                     @ (if length trackIds = 1 then [] else ''s'')
                     @ '' from playlist (ID: '' @ playlistId @ '')'')]\<rparr>))
          (\<lambda>error. resolve \<lparr>content = [text_block
             (''Error removing tracks from playlist: '' @ error_text error)]\<rparr>))"

section \<open>The tool registry\<close>

text \<open>
  A call to a registered tool with arguments of the types its schema declares. The
  order of the constructors is the order of registration:
  \<^verbatim>\<open>[...playTools, ...readTools, ...writeTools]\<close>.
\<close>

datatype tool_call =
    ToolPlayMusic uri_args
  | ToolPlaybackAction action "string option"
  | ToolSearchSpotify search_args
  | ToolGetNowPlaying
  | ToolGetUserPlaylists "real option"
  | ToolGetPlaylistTracks string "real option"
  | ToolGetRecentlyPlayed "real option"
  | ToolGetFollowedArtists "string option" "real option"
  | ToolGetUserTopItems top_items_args
  | ToolAddToQueue uri_args
  | ToolAddTracksToPlaylist string "string list" "real option"
  | ToolCreatePlaylist string "string option" "bool option"
  | ToolRemoveTracksFromPlaylist string "string list"

fun handler :: "env \<Rightarrow> tool_call \<Rightarrow> envelope eff" where
  "handler e (ToolPlayMusic args) = playMusic e args"
| "handler e (ToolPlaybackAction act dev) = playbackAction e act dev"
| "handler e (ToolSearchSpotify args) = searchSpotify e args"
| "handler e ToolGetNowPlaying = getNowPlaying e"
| "handler e (ToolGetUserPlaylists l) = getUserPlaylists e l"
| "handler e (ToolGetPlaylistTracks p l) = getPlaylistTracks e p l"
| "handler e (ToolGetRecentlyPlayed l) = getRecentlyPlayed e l"
| "handler e (ToolGetFollowedArtists a l) = getFollowedArtists e a l"
| "handler e (ToolGetUserTopItems args) = getUserTopItems e args"
| "handler e (ToolAddToQueue args) = addToQueue e args"
| "handler e (ToolAddTracksToPlaylist p ts pos) = addTracksToPlaylist e p ts pos"
| "handler e (ToolCreatePlaylist n d pub) = createPlaylist e n d pub"
| "handler e (ToolRemoveTracksFromPlaylist p ts) = removeTracksFromPlaylist e p ts"

text \<open>
  The numeric rules of the schemas. \<^verbatim>\<open>z.number().min(a).max(b).optional()\<close>
  accepts an absent value and a number between \<open>a\<close> and \<open>b\<close>, bounds included.
\<close>

definition number_between :: "real \<Rightarrow> real \<Rightarrow> real option \<Rightarrow> bool" where
  "number_between a b v = (case v of None \<Rightarrow> True | Some x \<Rightarrow> a \<le> x \<and> x \<le> b)"

definition nonnegative :: "real option \<Rightarrow> bool" where
  "nonnegative v = (case v of None \<Rightarrow> True | Some x \<Rightarrow> 0 \<le> x)"

fun schema_accepts :: "tool_call \<Rightarrow> bool" where
  "schema_accepts (ToolSearchSpotify args) =
     (number_between 1 50 (limit args) \<and> number_between 0 1000 (offset args))"
| "schema_accepts (ToolGetUserPlaylists l) = number_between 1 50 l"
| "schema_accepts (ToolGetPlaylistTracks p l) = number_between 1 50 l"
| "schema_accepts (ToolGetRecentlyPlayed l) = number_between 1 50 l"
| "schema_accepts (ToolGetFollowedArtists a l) = number_between 1 50 l"
| "schema_accepts (ToolGetUserTopItems args) = number_between 1 50 (topLimit args)"
| "schema_accepts (ToolAddTracksToPlaylist p ts pos) = nonnegative pos"
| "schema_accepts (ToolPlayMusic args) = True"
| "schema_accepts (ToolPlaybackAction act dev) = True"
| "schema_accepts ToolGetNowPlaying = True"
| "schema_accepts (ToolAddToQueue args) = True"
| "schema_accepts (ToolCreatePlaylist n d pub) = True"
| "schema_accepts (ToolRemoveTracksFromPlaylist p ts) = True"

datatype outcome = InputError | Thrown thrown | Returned envelope

text \<open>
  Modelled from the spec: the server that the tools are registered with
  (\<^verbatim>\<open>server.tool(name, description, schema, handler)\<close>) is an imported library.
  The specification says that the call arguments are validated against the tool's
  schema before the handler runs, that a validation failure prevents the handler from
  executing and is reported as an input error, and that a failure the handler does not
  catch goes to the transport's error path.
\<close>

definition tool_call_outcome :: "env \<Rightarrow> tool_call \<Rightarrow> api_call list \<times> outcome" where
  "tool_call_outcome e c =
     (if schema_accepts c then
        (case handler e c of
           (t, Inl err) \<Rightarrow> (t, Thrown err)
         | (t, Inr r) \<Rightarrow> (t, Returned r))
      else ([], InputError))"

section \<open>Numbered listings\<close>

text \<open>
  A list of lines is numbered from 1 when line \<open>i\<close> (counted from 0) begins with the
  decimal rendering of \<open>i + 1\<close>, a full stop and a space.
\<close>

definition numbered_lines :: "string list \<Rightarrow> bool" where
  "numbered_lines ls = (\<forall>i<length ls. prefix (decimal (i + 1) @ ''. '') (ls ! i))"

text \<open>
  The result set of a search: the items of the page of the requested type, none when the
  page is absent; and the lines that \<^verbatim>\<open>searchSpotify\<close> renders for them before
  joining.
\<close>

fun result_count :: "search_type \<Rightarrow> search_results \<Rightarrow> nat" where
  "result_count SearchTrack results =
     (case result_tracks results of None \<Rightarrow> 0 | Some items \<Rightarrow> length items)"
| "result_count SearchAlbum results =
     (case result_albums results of None \<Rightarrow> 0 | Some items \<Rightarrow> length items)"
| "result_count SearchPlaylist results =
     (case result_playlists results of None \<Rightarrow> 0 | Some items \<Rightarrow> length items)"

fun result_lines :: "search_type \<Rightarrow> search_results \<Rightarrow> string list" where
  "result_lines SearchTrack results =
     (case result_tracks results of
        None \<Rightarrow> [] | Some items \<Rightarrow> map_indexed search_track_line items)"
| "result_lines SearchAlbum results =
     (case result_albums results of
        None \<Rightarrow> [] | Some items \<Rightarrow> map_indexed search_album_line items)"
| "result_lines SearchPlaylist results =
     (case result_playlists results of
        None \<Rightarrow> [] | Some items \<Rightarrow> map_indexed search_playlist_line items)"

section \<open>Sample clients\<close>

text \<open>A client whose every method succeeds with an empty answer.\<close>

definition silent_api :: spotifyApi where
  "silent_api =
     \<lparr>api_search = (\<lambda>q ts m l off.
          Inr \<lparr>result_tracks = None, result_albums = None, result_playlists = None\<rparr>),
      player_getCurrentlyPlayingTrack = Inr None,
      currentUser_playlists = (\<lambda>l. Inr []),
      playlists_getPlaylistItems = (\<lambda>p m f l. Inr (Some [])),
      player_getRecentlyPlayedTracks = (\<lambda>l. Inr []),
      currentUser_followedArtists = (\<lambda>a l. Inr []),
      currentUser_topItems = (\<lambda>ty r l. Inr []),
      player_startResumePlayback = (\<lambda>d c us. Inr ()),
      player_pausePlayback = (\<lambda>d. Inr ()),
      player_skipToNext = (\<lambda>d. Inr ()),
      player_skipToPrevious = (\<lambda>d. Inr ()),
      currentUser_profile = Inr ''me'',
      playlists_createPlaylist = (\<lambda>u n d p. Inr ''new''),
      playlists_addItemsToPlaylist = (\<lambda>p us pos. Inr ()),
      player_addItemToPlaybackQueue = (\<lambda>u d. Inr ()),
      playlists_removeItemsFromPlaylist = (\<lambda>p ts. Inr ())\<rparr>"

text \<open>A client whose every method throws \<open>x\<close>.\<close>

definition broken_api :: "thrown \<Rightarrow> spotifyApi" where
  "broken_api x =
     \<lparr>api_search = (\<lambda>q ts m l off. Inl x),
      player_getCurrentlyPlayingTrack = Inl x,
      currentUser_playlists = (\<lambda>l. Inl x),
      playlists_getPlaylistItems = (\<lambda>p m f l. Inl x),
      player_getRecentlyPlayedTracks = (\<lambda>l. Inl x),
      currentUser_followedArtists = (\<lambda>a l. Inl x),
      currentUser_topItems = (\<lambda>ty r l. Inl x),
      player_startResumePlayback = (\<lambda>d c us. Inl x),
      player_pausePlayback = (\<lambda>d. Inl x),
      player_skipToNext = (\<lambda>d. Inl x),
      player_skipToPrevious = (\<lambda>d. Inl x),
      currentUser_profile = Inl x,
      playlists_createPlaylist = (\<lambda>u n d p. Inl x),
      playlists_addItemsToPlaylist = (\<lambda>p us pos. Inl x),
      player_addItemToPlaybackQueue = (\<lambda>u d. Inl x),
      playlists_removeItemsFromPlaylist = (\<lambda>p ts. Inl x)\<rparr>"

definition silent_env :: env where
  "silent_env = \<lparr>credential = None, client = silent_api\<rparr>"

definition broken_env :: "thrown \<Rightarrow> env" where
  "broken_env x = \<lparr>credential = None, client = broken_api x\<rparr>"

text \<open>A client that answers every list request and every search with the given items.\<close>

definition listing_env ::
    "track list \<Rightarrow> album list \<Rightarrow> playlist option list \<Rightarrow> user_playlist list
       \<Rightarrow> playlist_entry list \<Rightarrow> artist list \<Rightarrow> top_item list \<Rightarrow> env" where
  "listing_env tracks albums playlists mine entries artists tops =
     \<lparr>credential = None,
      client = silent_api
        \<lparr>api_search := (\<lambda>q ts m l off.
            Inr \<lparr>result_tracks = Some tracks, result_albums = Some albums,
                  result_playlists = Some playlists\<rparr>),
         currentUser_playlists := (\<lambda>l. Inr mine),
         playlists_getPlaylistItems := (\<lambda>p m f l. Inr (Some entries)),
         player_getRecentlyPlayedTracks := (\<lambda>l. Inr entries),
         currentUser_followedArtists := (\<lambda>a l. Inr artists),
         currentUser_topItems := (\<lambda>ty r l. Inr tops)\<rparr>\<rparr>"

text \<open>A client that reports the given playback state and is silent otherwise.\<close>

definition playing_env :: "playback_state option \<Rightarrow> env" where
  "playing_env st =
     \<lparr>credential = None,
      client = silent_api\<lparr>player_getCurrentlyPlayingTrack := Inr st\<rparr>\<rparr>"

definition sample_episode :: playable where
  "sample_episode =
     \<lparr>item_type = ''episode'', item_name = ''Episode 12'', item_id = ''e12'',
      item_duration_ms = 1800000, item_artists = None, item_album = None\<rparr>"

definition sample_track :: playable where
  "sample_track =
     \<lparr>item_type = ''track'', item_name = ''Bicycle Race'', item_id = ''t1'',
      item_duration_ms = 125000,
      item_artists = Some [\<lparr>artist_name = ''Queen'', artist_id = ''q1''\<rparr>],
      item_album = Some \<lparr>ref_name = Some ''Jazz''\<rparr>\<rparr>"

definition sample_artist :: artist where
  "sample_artist = \<lparr>artist_name = ''Queen'', artist_id = ''q1''\<rparr>"

definition sample_entries :: "playlist_entry list" where
  "sample_entries = [\<lparr>entry_track = None\<rparr>, \<lparr>entry_track = Some sample_track\<rparr>]"

definition sample_listing_env :: env where
  "sample_listing_env =
     listing_env
       [\<lparr>track_name = ''Bicycle Race'', track_id = ''t1'', track_artists = [sample_artist],
         track_duration_ms = 125000\<rparr>]
       []
       [None]
       [\<lparr>up_name = ''Mix'', up_id = ''P1'', up_tracks_total = Some 12\<rparr>]
       sample_entries
       [sample_artist]
       [\<lparr>top_name = ''Queen'', top_id = ''q1'', top_artists = None\<rparr>]"

section \<open>Facts about decimal rendering\<close>

lemma decimal_small: "n < 10 \<Longrightarrow> decimal n = [digit_char n]"
  by (simp add: decimal.simps)

lemma decimal_large:
  "10 \<le> n \<Longrightarrow> decimal n = decimal (n div 10) @ [digit_char (n mod 10)]"
  by (subst decimal.simps) simp

lemma digit_char_simps:
  "digit_char 0 = CHR ''0''" "digit_char 1 = CHR ''1''" "digit_char (Suc 0) = CHR ''1''"
  "digit_char 2 = CHR ''2''" "digit_char 3 = CHR ''3''" "digit_char 4 = CHR ''4''"
  "digit_char 5 = CHR ''5''" "digit_char 6 = CHR ''6''" "digit_char 7 = CHR ''7''"
  "digit_char 8 = CHR ''8''" "digit_char 9 = CHR ''9''"
  by (simp_all add: digit_char_def)

lemmas decimal_eval = decimal_small decimal_large digit_char_simps

lemma below_ten: "k < 10 \<Longrightarrow> k \<in> {0, 1, 2, 3, 4, 5, 6, 7, 8, 9::nat}"
  by auto

lemma digit_value_digit_char: "k < 10 \<Longrightarrow> digit_value (digit_char k) = k"
  by (drule below_ten) (auto simp add: digit_value_def digit_char_def)

lemma digit_char_not_colon: "k < 10 \<Longrightarrow> digit_char k \<noteq> CHR '':''"
  by (drule below_ten) (auto simp add: digit_char_def)

lemma decimal_not_empty: "decimal n \<noteq> []"
  by (subst decimal.simps) simp

lemma decimal_no_colon: "CHR '':'' \<notin> set (decimal n)"
proof (induction n rule: decimal.induct)
  case (1 n)
  show ?case
  proof (cases "n < 10")
    case True
    then show ?thesis
      using digit_char_not_colon [of n] by (simp add: decimal_small)
  next
    case False
    then have "CHR '':'' \<notin> set (decimal (n div 10))"
      using 1 by simp
    moreover have "digit_char (n mod 10) \<noteq> CHR '':''"
      by (rule digit_char_not_colon) simp
    ultimately show ?thesis
      using False by (auto simp add: decimal_large)
  qed
qed

lemma read_decimal_snoc: "read_decimal (s @ [c]) = 10 * read_decimal s + digit_value c"
  by (simp add: read_decimal_def)

lemma read_decimal_decimal: "read_decimal (decimal n) = n"
proof (induction n rule: decimal.induct)
  case (1 n)
  show ?case
  proof (cases "n < 10")
    case True
    then show ?thesis
      by (simp add: decimal_small read_decimal_def digit_value_digit_char)
  next
    case False
    with 1 show ?thesis
      by (simp add: decimal_large read_decimal_snoc digit_value_digit_char)
  qed
qed

lemma padStart2_decimal:
  assumes "s < 100"
  shows "padStart2 (decimal s) = [digit_char (s div 10), digit_char (s mod 10)]"
proof (cases "s < 10")
  case True
  then show ?thesis
    by (simp add: padStart2_def decimal_small digit_char_simps)
next
  case False
  then have "s div 10 < 10" using assms by simp
  with False show ?thesis
    by (simp add: padStart2_def decimal_large decimal_small)
qed

lemma read_two_digits:
  "a < 10 \<Longrightarrow> b < 10 \<Longrightarrow> read_decimal [digit_char a, digit_char b] = 10 * a + b"
  by (simp add: read_decimal_def digit_value_digit_char)

lemma formatDuration_shape:
  "formatDuration d =
     decimal (d div 60000) @ '':'' @
       [digit_char (d mod 60000 div 1000 div 10), digit_char (d mod 60000 div 1000 mod 10)]"
proof -
  have "d mod 60000 div 1000 < 100"
    by (simp add: less_mult_imp_div_less)
  then show ?thesis
    by (simp add: formatDuration_def padStart2_decimal)
qed

lemma takeWhile_before_colon:
  "CHR '':'' \<notin> set m \<Longrightarrow> takeWhile (\<lambda>c. c \<noteq> CHR '':'') (m @ CHR '':'' # r) = m"
  by (induction m) auto

lemma dropWhile_before_colon:
  "CHR '':'' \<notin> set m \<Longrightarrow>
     dropWhile (\<lambda>c. c \<noteq> CHR '':'') (m @ CHR '':'' # r) = CHR '':'' # r"
  by (induction m) auto

lemma duration_minutes_formatDuration:
  "duration_minutes (formatDuration d) = d div 60000"
  by (simp add: duration_minutes_def formatDuration_shape
      takeWhile_before_colon [OF decimal_no_colon] read_decimal_decimal)

lemma duration_seconds_formatDuration:
  "duration_seconds (formatDuration d) = d mod 60000 div 1000"
proof -
  have lt: "d mod 60000 div 1000 < 60"
    by (simp add: less_mult_imp_div_less)
  have "duration_seconds (formatDuration d) =
        read_decimal [digit_char (d mod 60000 div 1000 div 10),
                      digit_char (d mod 60000 div 1000 mod 10)]"
    by (simp add: duration_seconds_def formatDuration_shape
        dropWhile_before_colon [OF decimal_no_colon])
  also have "\<dots> = 10 * (d mod 60000 div 1000 div 10) + d mod 60000 div 1000 mod 10"
    using lt by (intro read_two_digits) simp_all
  finally show ?thesis by simp
qed

lemma whole_seconds: "(d::nat) div 60000 * 60000 + d mod 60000 div 1000 * 1000 = d div 1000 * 1000"
proof -
  have "d mod 60000 div 1000 = d div 1000 mod 60"
    using mod_mult2_eq [of d 1000 60] by simp
  moreover have "d div 60000 = d div 1000 div 60"
    by (simp add: div_mult2_eq)
  ultimately have "d div 60000 * 60 + d mod 60000 div 1000 = d div 1000"
    by simp
  then have "(d div 60000 * 60 + d mod 60000 div 1000) * 1000 = d div 1000 * 1000"
    by simp
  then show ?thesis
    by (simp add: algebra_simps)
qed

section \<open>Duration formatting: the round trip\<close>

text \<open>
  Claim C4. For every millisecond count \<open>d\<close> (a natural number, so \<open>d \<ge> 0\<close>) the
  formatter yields the minutes in decimal, a colon, and the seconds as exactly two
  digits (so 125000 ms gives \<^verbatim>\<open>2:05\<close>); and reading the minutes and seconds
  back and computing \<open>minutes * 60000 + seconds * 1000\<close> gives \<open>d\<close> rounded down to
  a whole number of seconds.
\<close>

theorem formatDuration_roundtrip:
  "formatDuration d =
     decimal (d div 60000) @ '':'' @
       [digit_char (d mod 60000 div 1000 div 10), digit_char (d mod 60000 div 1000 mod 10)]
   \<and> d mod 60000 div 1000 < 60
   \<and> formatDuration 125000 = ''2:05''
   \<and> duration_inverse (formatDuration d) = d div 1000 * 1000"
proof -
  have "d mod 60000 div 1000 < 60"
    by (simp add: less_mult_imp_div_less)
  moreover have "formatDuration 125000 = ''2:05''"
    by (simp add: formatDuration_def padStart2_def decimal_eval)
  moreover have "duration_inverse (formatDuration d) = d div 1000 * 1000"
    by (simp add: duration_inverse_def duration_minutes_formatDuration
        duration_seconds_formatDuration whole_seconds)
  ultimately show ?thesis
    using formatDuration_shape [of d] by simp
qed

section \<open>Playback start and queue addition\<close>

lemmas eff_defs = resolve_def call_def await_def try_catch_def handleSpotifyRequest_def

text \<open>
  Claim C1 as stated fails where an argument is supplied as the empty string: the
  handlers test \<^verbatim>\<open>!uri\<close> and \<^verbatim>\<open>!id\<close>, so an empty \<^verbatim>\<open>uri\<close> is
  treated as absent and, with nothing else given, no client call is made although a uri
  was supplied; likewise a type with an empty \<^verbatim>\<open>id\<close> yields the error block
  instead of a synthesized URI.
\<close>

theorem uri_supplied_counterexample:
  "playMusic silent_env \<lparr>uri = Some [], itemType = None, itemId = None, deviceId = None\<rparr>
     = ([], Inr must_provide)
   \<and> addToQueue silent_env \<lparr>uri = Some [], itemType = None, itemId = None, deviceId = None\<rparr>
     = ([], Inr must_provide)
   \<and> playMusic silent_env \<lparr>uri = None, itemType = Some Track, itemId = Some [], deviceId = None\<rparr>
     = ([], Inr must_provide)
   \<and> addToQueue silent_env \<lparr>uri = None, itemType = Some Track, itemId = Some [], deviceId = None\<rparr>
     = ([], Inr must_provide)"
  by (simp add: playMusic_def addToQueue_def truthy_def spotifyUri_of_def resolve_def)

lemma playMusic_refuses:
  "\<not> truthy (uri args) \<Longrightarrow> itemType args = None \<or> \<not> truthy (itemId args) \<Longrightarrow>
     playMusic e args = ([], Inr must_provide)"
  by (simp add: playMusic_def resolve_def)

lemma addToQueue_refuses:
  "\<not> truthy (uri args) \<Longrightarrow> itemType args = None \<or> \<not> truthy (itemId args) \<Longrightarrow>
     addToQueue e args = ([], Inr must_provide)"
  by (auto simp add: addToQueue_def resolve_def spotifyUri_of_def truthy_def Let_def
      split: option.splits)

lemma spotifyUri_of_given: "u \<noteq> [] \<Longrightarrow> spotifyUri_of (Some u) ty i = Some u"
  by (simp add: spotifyUri_of_def truthy_def split: option.splits)

lemma spotifyUri_of_synthesized:
  "\<not> truthy u \<Longrightarrow> i \<noteq> [] \<Longrightarrow>
     spotifyUri_of u (Some t) (Some i) = Some (''spotify:'' @ item_type_name t @ '':'' @ i)"
  by (simp add: spotifyUri_of_def)

lemma playMusic_calls:
  assumes "credential e = None" "spotifyUri_of (uri args) (itemType args) (itemId args) = Some su"
    "su \<noteq> []" "truthy (uri args) \<or> (itemType args \<noteq> None \<and> truthy (itemId args))"
  shows "fst (playMusic e args) =
     [if itemType args = Some Track
      then ApiStartResumePlayback (or_else (deviceId args) []) None (Some [su])
      else ApiStartResumePlayback (or_else (deviceId args) []) (Some su) None]"
  using assms
  by (auto simp add: playMusic_def playMusic_request_def eff_defs Let_def split: sum.splits)

lemma addToQueue_calls:
  assumes "credential e = None" "spotifyUri_of (uri args) (itemType args) (itemId args) = Some su"
    "su \<noteq> []"
  shows "fst (addToQueue e args) = [ApiAddItemToPlaybackQueue su (or_else (deviceId args) [])]"
  using assms
  by (auto simp add: addToQueue_def addToQueue_request_def eff_defs Let_def split: sum.splits)

text \<open>
  Claim C1, amended: read ``supplied'' as ``present and not the empty string''. For
  \<^verbatim>\<open>playMusic\<close> and \<^verbatim>\<open>addToQueue\<close> alike: with no non-empty uri and
  without both a type and a non-empty id, the handler returns the error content block
  and makes no client call, whatever the surroundings are; with a non-empty uri, the
  dispatcher having a credential, the one client call made carries exactly that uri; with
  no non-empty uri but a type and a non-empty id, the one client call made carries
  \<^verbatim>\<open>spotify:<type>:<id>\<close>.
\<close>

theorem uri_or_type_and_id:
  "(\<not> truthy (uri args) \<and> (itemType args = None \<or> \<not> truthy (itemId args)) \<longrightarrow>
      playMusic e args = ([], Inr must_provide) \<and> addToQueue e args = ([], Inr must_provide))
   \<and> (credential e = None \<and> uri args = Some u \<and> u \<noteq> [] \<longrightarrow>
      fst (playMusic e args) =
        [if itemType args = Some Track
         then ApiStartResumePlayback (or_else (deviceId args) []) None (Some [u])
         else ApiStartResumePlayback (or_else (deviceId args) []) (Some u) None]
      \<and> fst (addToQueue e args) = [ApiAddItemToPlaybackQueue u (or_else (deviceId args) [])])
   \<and> (credential e = None \<and> \<not> truthy (uri args) \<and> itemType args = Some t
        \<and> itemId args = Some i \<and> i \<noteq> [] \<longrightarrow>
      fst (playMusic e args) =
        [if t = Track
         then ApiStartResumePlayback (or_else (deviceId args) []) None
                (Some [''spotify:'' @ item_type_name t @ '':'' @ i])
         else ApiStartResumePlayback (or_else (deviceId args) [])
                (Some (''spotify:'' @ item_type_name t @ '':'' @ i)) None]
      \<and> fst (addToQueue e args) =
          [ApiAddItemToPlaybackQueue (''spotify:'' @ item_type_name t @ '':'' @ i)
             (or_else (deviceId args) [])])"
proof (intro conjI impI)
  assume "\<not> truthy (uri args) \<and> (itemType args = None \<or> \<not> truthy (itemId args))"
  then show "playMusic e args = ([], Inr must_provide)"
    and "addToQueue e args = ([], Inr must_provide)"
    by (simp_all add: playMusic_refuses addToQueue_refuses)
next
  assume a: "credential e = None \<and> uri args = Some u \<and> u \<noteq> []"
  then have su: "spotifyUri_of (uri args) (itemType args) (itemId args) = Some u"
    by (simp add: spotifyUri_of_given)
  from a have tr: "truthy (uri args)" by (simp add: truthy_def)
  show "fst (playMusic e args) =
        [if itemType args = Some Track
         then ApiStartResumePlayback (or_else (deviceId args) []) None (Some [u])
         else ApiStartResumePlayback (or_else (deviceId args) []) (Some u) None]"
    using a su tr by (intro playMusic_calls) simp_all
  show "fst (addToQueue e args) = [ApiAddItemToPlaybackQueue u (or_else (deviceId args) [])]"
    using a su by (intro addToQueue_calls) simp_all
next
  assume a: "credential e = None \<and> \<not> truthy (uri args) \<and> itemType args = Some t
        \<and> itemId args = Some i \<and> i \<noteq> []"
  then have su: "spotifyUri_of (uri args) (itemType args) (itemId args)
                   = Some (''spotify:'' @ item_type_name t @ '':'' @ i)"
    by (simp add: spotifyUri_of_synthesized)
  from a have tr: "itemType args \<noteq> None \<and> truthy (itemId args)" by (simp add: truthy_def)
  have "fst (playMusic e args) =
        [if itemType args = Some Track
         then ApiStartResumePlayback (or_else (deviceId args) []) None
                (Some [''spotify:'' @ item_type_name t @ '':'' @ i])
         else ApiStartResumePlayback (or_else (deviceId args) [])
                (Some (''spotify:'' @ item_type_name t @ '':'' @ i)) None]"
    using a su tr by (intro playMusic_calls) simp_all
  then show "fst (playMusic e args) =
        [if t = Track
         then ApiStartResumePlayback (or_else (deviceId args) []) None
                (Some [''spotify:'' @ item_type_name t @ '':'' @ i])
         else ApiStartResumePlayback (or_else (deviceId args) [])
                (Some (''spotify:'' @ item_type_name t @ '':'' @ i)) None]"
    using a by simp
  show "fst (addToQueue e args) =
          [ApiAddItemToPlaybackQueue (''spotify:'' @ item_type_name t @ '':'' @ i)
             (or_else (deviceId args) [])]"
    using a su by (intro addToQueue_calls) simp_all
qed

theorem uri_or_type_and_id_witness:
  "playMusic (broken_env (ErrorObject ''offline''))
      \<lparr>uri = None, itemType = Some Album, itemId = None, deviceId = None\<rparr>
     = ([], Inr must_provide)
   \<and> addToQueue (broken_env (ErrorObject ''offline''))
      \<lparr>uri = None, itemType = Some Album, itemId = None, deviceId = None\<rparr>
     = ([], Inr must_provide)
   \<and> fst (playMusic silent_env
        \<lparr>uri = Some ''spotify:album:a1'', itemType = None, itemId = None, deviceId = None\<rparr>)
     = [ApiStartResumePlayback [] (Some ''spotify:album:a1'') None]
   \<and> fst (addToQueue silent_env
        \<lparr>uri = Some ''spotify:album:a1'', itemType = None, itemId = None, deviceId = None\<rparr>)
     = [ApiAddItemToPlaybackQueue ''spotify:album:a1'' []]
   \<and> fst (playMusic silent_env
        \<lparr>uri = None, itemType = Some Playlist, itemId = Some ''p7'', deviceId = Some ''d1''\<rparr>)
     = [ApiStartResumePlayback ''d1'' (Some ''spotify:playlist:p7'') None]
   \<and> fst (addToQueue silent_env
        \<lparr>uri = None, itemType = Some Playlist, itemId = Some ''p7'', deviceId = Some ''d1''\<rparr>)
     = [ApiAddItemToPlaybackQueue ''spotify:playlist:p7'' ''d1'']"
  using
    uri_or_type_and_id [where e = "broken_env (ErrorObject ''offline'')"
      and args = "\<lparr>uri = None, itemType = Some Album, itemId = None, deviceId = None\<rparr>"]
    uri_or_type_and_id [where e = silent_env and u = "''spotify:album:a1''"
      and args = "\<lparr>uri = Some ''spotify:album:a1'', itemType = None, itemId = None,
                    deviceId = None\<rparr>"]
    uri_or_type_and_id [where e = silent_env and t = Playlist and i = "''p7''"
      and args = "\<lparr>uri = None, itemType = Some Playlist, itemId = Some ''p7'',
                    deviceId = Some ''d1''\<rparr>"]
  by (simp add: silent_env_def truthy_def or_else_def)

text \<open>
  Claim C2 says that a URI that refers to a track reaches playback start as a
  single-element track list. The handler decides by the \<^verbatim>\<open>type\<close> argument and not
  by the URI: a track URI given as \<^verbatim>\<open>uri\<close> alone is passed as the context URI
  (first line), while the same URI synthesized from \<^verbatim>\<open>type\<close> and \<^verbatim>\<open>id\<close>
  is passed as the track list (second line, the scenario of the claim); and an album URI
  given together with \<^verbatim>\<open>type: 'track'\<close> is passed as a track list (third line),
  although the schema describes \<^verbatim>\<open>uri\<close> as overriding type and id.
\<close>

theorem playMusic_track_uri_sent_as_context:
  "fst (playMusic silent_env
      \<lparr>uri = Some ''spotify:track:t1'', itemType = None, itemId = None, deviceId = None\<rparr>)
     = [ApiStartResumePlayback [] (Some ''spotify:track:t1'') None]
   \<and> fst (playMusic silent_env
      \<lparr>uri = None, itemType = Some Track, itemId = Some ''t1'', deviceId = None\<rparr>)
     = [ApiStartResumePlayback [] None (Some [''spotify:track:t1''])]
   \<and> fst (playMusic silent_env
      \<lparr>uri = Some ''spotify:album:a1'', itemType = Some Track, itemId = Some ''t1'',
        deviceId = None\<rparr>)
     = [ApiStartResumePlayback [] None (Some [''spotify:album:a1''])]"
  by (simp add: playMusic_def playMusic_request_def eff_defs spotifyUri_of_def truthy_def
      or_else_def silent_env_def silent_api_def)

section \<open>Adding and removing playlist tracks\<close>

lemma digit_char_Suc:
  "digit_char (Suc (Suc 0)) = CHR ''2''" "digit_char (Suc (Suc (Suc 0))) = CHR ''3''"
  by (simp_all add: digit_char_def)

lemma addTracks_empty: "addTracksToPlaylist e p [] pos = ([], Inr no_track_ids)"
  by (simp add: addTracksToPlaylist_def resolve_def)

lemma removeTracks_empty: "removeTracksFromPlaylist e p [] = ([], Inr no_track_ids)"
  by (simp add: removeTracksFromPlaylist_def resolve_def)

lemma addTracks_calls:
  "trackIds \<noteq> [] \<Longrightarrow> credential e = None \<Longrightarrow>
     fst (addTracksToPlaylist e p trackIds pos) =
       [ApiAddItemsToPlaylist p (map (\<lambda>tid. ''spotify:track:'' @ tid) trackIds) pos]"
  by (auto simp add: addTracksToPlaylist_def addTracksToPlaylist_request_def eff_defs Let_def
      split: sum.splits)

lemma removeTracks_calls:
  "trackIds \<noteq> [] \<Longrightarrow> credential e = None \<Longrightarrow>
     fst (removeTracksFromPlaylist e p trackIds) =
       [ApiRemoveItemsFromPlaylist p
          (map (\<lambda>tid. TrackRef (''spotify:track:'' @ tid)) trackIds)]"
  by (auto simp add: removeTracksFromPlaylist_def removeTracksFromPlaylist_request_def eff_defs
      Let_def split: sum.splits)

lemma addTracks_success:
  "trackIds \<noteq> [] \<Longrightarrow>
   snd (addTracksToPlaylist_request e p (map (\<lambda>tid. ''spotify:track:'' @ tid) trackIds) pos)
     = Inr () \<Longrightarrow>
   snd (addTracksToPlaylist e p trackIds pos) =
     Inr \<lparr>content = [text_block
       (''Successfully added '' @ decimal (length trackIds)
          @ (if length trackIds = 1 then '' track'' else '' tracks'')
          @ '' to playlist (ID: '' @ p @ '')'')]\<rparr>"
proof -
  assume ne: "trackIds \<noteq> []"
  assume "snd (addTracksToPlaylist_request e p
                 (map (\<lambda>tid. ''spotify:track:'' @ tid) trackIds) pos) = Inr ()"
  then obtain t where r: "addTracksToPlaylist_request e p
                 (map (\<lambda>tid. ''spotify:track:'' @ tid) trackIds) pos = (t, Inr ())"
    by (metis prod.collapse)
  show ?thesis
    unfolding addTracksToPlaylist_def Let_def r
    using ne by (simp add: resolve_def await_def try_catch_def)
qed

lemma removeTracks_success:
  "trackIds \<noteq> [] \<Longrightarrow>
   snd (removeTracksFromPlaylist_request e p
          (map (\<lambda>tid. TrackRef (''spotify:track:'' @ tid)) trackIds)) = Inr () \<Longrightarrow>
   snd (removeTracksFromPlaylist e p trackIds) =
     Inr \<lparr>content = [text_block
       (''Successfully removed '' @ decimal (length trackIds)
          @ (if length trackIds = 1 then '' track'' else '' tracks'')
          @ '' from playlist (ID: '' @ p @ '')'')]\<rparr>"
proof -
  assume ne: "trackIds \<noteq> []"
  assume "snd (removeTracksFromPlaylist_request e p
          (map (\<lambda>tid. TrackRef (''spotify:track:'' @ tid)) trackIds)) = Inr ()"
  then obtain t where r: "removeTracksFromPlaylist_request e p
          (map (\<lambda>tid. TrackRef (''spotify:track:'' @ tid)) trackIds) = (t, Inr ())"
    by (metis prod.collapse)
  show ?thesis
    unfolding removeTracksFromPlaylist_def Let_def r
    using ne by (simp add: resolve_def await_def try_catch_def)
qed

lemma add_two_tracks:
  "addTracksToPlaylist silent_env ''P1'' [''t1'', ''t2''] None =
     ([ApiAddItemsToPlaylist ''P1'' [''spotify:track:t1'', ''spotify:track:t2''] None],
      Inr \<lparr>content = [text_block ''Successfully added 2 tracks to playlist (ID: P1)'']\<rparr>)"
  by (simp add: addTracksToPlaylist_def addTracksToPlaylist_request_def eff_defs
      silent_env_def silent_api_def decimal_eval digit_char_Suc)

text \<open>
  Claim C3. For \<^verbatim>\<open>addTracksToPlaylist\<close> and \<^verbatim>\<open>removeTracksFromPlaylist\<close>: an empty
  list of track ids returns the message that no track ids were provided and makes no
  client call, whatever the surroundings are; a non-empty list makes one client call,
  with \<^verbatim>\<open>spotify:track:<id>\<close> for every id in the original order; and when the
  dispatch succeeds the returned text has the count followed by ``track'' if the count is
  1 and by ``tracks'' otherwise. Adding \<^verbatim>\<open>t1\<close> and \<^verbatim>\<open>t2\<close> to playlist
  \<^verbatim>\<open>P1\<close> calls the client with the two URIs and returns
  ``Successfully added 2 tracks to playlist (ID: P1)''.
\<close>

theorem playlist_track_edits:
  "(trackIds = [] \<longrightarrow>
      addTracksToPlaylist e p trackIds pos = ([], Inr no_track_ids)
      \<and> removeTracksFromPlaylist e p trackIds = ([], Inr no_track_ids))
   \<and> (trackIds \<noteq> [] \<and> credential e = None \<longrightarrow>
      fst (addTracksToPlaylist e p trackIds pos) =
        [ApiAddItemsToPlaylist p (map (\<lambda>tid. ''spotify:track:'' @ tid) trackIds) pos]
      \<and> fst (removeTracksFromPlaylist e p trackIds) =
        [ApiRemoveItemsFromPlaylist p
           (map (\<lambda>tid. TrackRef (''spotify:track:'' @ tid)) trackIds)])
   \<and> (trackIds \<noteq> []
        \<and> snd (addTracksToPlaylist_request e p
                  (map (\<lambda>tid. ''spotify:track:'' @ tid) trackIds) pos) = Inr () \<longrightarrow>
      snd (addTracksToPlaylist e p trackIds pos) =
        Inr \<lparr>content = [text_block
          (''Successfully added '' @ decimal (length trackIds)
             @ (if length trackIds = 1 then '' track'' else '' tracks'')
             @ '' to playlist (ID: '' @ p @ '')'')]\<rparr>)
   \<and> (trackIds \<noteq> []
        \<and> snd (removeTracksFromPlaylist_request e p
                  (map (\<lambda>tid. TrackRef (''spotify:track:'' @ tid)) trackIds)) = Inr () \<longrightarrow>
      snd (removeTracksFromPlaylist e p trackIds) =
        Inr \<lparr>content = [text_block
          (''Successfully removed '' @ decimal (length trackIds)
             @ (if length trackIds = 1 then '' track'' else '' tracks'')
             @ '' from playlist (ID: '' @ p @ '')'')]\<rparr>)
   \<and> no_track_ids = \<lparr>content = [text_block ''Error: No track IDs provided'']\<rparr>
   \<and> addTracksToPlaylist silent_env ''P1'' [''t1'', ''t2''] None =
        ([ApiAddItemsToPlaylist ''P1'' [''spotify:track:t1'', ''spotify:track:t2''] None],
         Inr \<lparr>content = [text_block ''Successfully added 2 tracks to playlist (ID: P1)'']\<rparr>)"
  using addTracks_empty [of e p pos] removeTracks_empty [of e p]
    addTracks_calls [of trackIds e p pos] removeTracks_calls [of trackIds e p]
    addTracks_success [of trackIds e p pos] removeTracks_success [of trackIds e p]
    add_two_tracks
  by (simp add: no_track_ids_def)

theorem playlist_track_edits_witness:
  "addTracksToPlaylist (broken_env (ErrorObject ''offline'')) ''P1'' [] None
     = ([], Inr no_track_ids)
   \<and> removeTracksFromPlaylist (broken_env (ErrorObject ''offline'')) ''P1'' []
     = ([], Inr no_track_ids)
   \<and> fst (addTracksToPlaylist silent_env ''P1'' [''a'', ''b'', ''c''] (Some 0)) =
        [ApiAddItemsToPlaylist ''P1''
           [''spotify:track:a'', ''spotify:track:b'', ''spotify:track:c''] (Some 0)]
   \<and> fst (removeTracksFromPlaylist silent_env ''P1'' [''a'']) =
        [ApiRemoveItemsFromPlaylist ''P1'' [TrackRef ''spotify:track:a'']]
   \<and> snd (addTracksToPlaylist silent_env ''P1'' [''a'', ''b'', ''c''] (Some 0)) =
        Inr \<lparr>content = [text_block ''Successfully added 3 tracks to playlist (ID: P1)'']\<rparr>
   \<and> snd (removeTracksFromPlaylist silent_env ''P1'' [''a'']) =
        Inr \<lparr>content = [text_block ''Successfully removed 1 track from playlist (ID: P1)'']\<rparr>"
  using
    playlist_track_edits [where trackIds = "[]" and p = "''P1''" and pos = None
      and e = "broken_env (ErrorObject ''offline'')"]
    playlist_track_edits [where trackIds = "[''a'', ''b'', ''c'']" and p = "''P1''"
      and pos = "Some 0" and e = silent_env]
    playlist_track_edits [where trackIds = "[''a'']" and p = "''P1''" and pos = None
      and e = silent_env]
  by (simp add: silent_env_def silent_api_def addTracksToPlaylist_request_def
      removeTracksFromPlaylist_request_def eff_defs decimal_eval digit_char_Suc)

section \<open>Search bounds, top items and the current track\<close>

lemma search_rejected:
  "(\<exists>l. limit args = Some l \<and> (l < 1 \<or> 50 < l))
     \<or> (\<exists>v. offset args = Some v \<and> (v < 0 \<or> 1000 < v)) \<Longrightarrow>
   tool_call_outcome e (ToolSearchSpotify args) = ([], InputError)"
  by (auto simp add: tool_call_outcome_def number_between_def)

lemma searchSpotify_calls:
  "credential e = None \<Longrightarrow>
   fst (searchSpotify e args) =
     [ApiSearch (query args) [searchType args] None
        (case limit args of None \<Rightarrow> 20 | Some l \<Rightarrow> l)
        (case offset args of None \<Rightarrow> 0 | Some v \<Rightarrow> v)]"
  by (auto simp add: searchSpotify_def searchSpotify_request_def eff_defs Let_def
      split: sum.splits)

lemma search_accepted_calls:
  "schema_accepts (ToolSearchSpotify args) \<Longrightarrow> credential e = None \<Longrightarrow>
   fst (tool_call_outcome e (ToolSearchSpotify args)) = fst (searchSpotify e args)"
  by (simp add: tool_call_outcome_def split: prod.splits sum.splits)

text \<open>
  Claim C5. A call of \<^verbatim>\<open>searchSpotify\<close> whose limit is outside \<open>[1, 50]\<close> or whose
  offset is outside \<open>[0, 1000]\<close> is rejected as an input error before the handler
  runs, with no client call, whatever the surroundings are; a call that the schema
  accepts, the dispatcher having a credential, makes one search call, whose limit is 20
  when the argument is omitted and whose offset is 0 when the argument is omitted.
\<close>

theorem search_bounds_and_defaults:
  "((\<exists>l. limit args = Some l \<and> (l < 1 \<or> 50 < l))
     \<or> (\<exists>v. offset args = Some v \<and> (v < 0 \<or> 1000 < v)) \<longrightarrow>
      tool_call_outcome e (ToolSearchSpotify args) = ([], InputError))
   \<and> (schema_accepts (ToolSearchSpotify args) \<and> credential e = None \<longrightarrow>
      fst (tool_call_outcome e (ToolSearchSpotify args)) =
        [ApiSearch (query args) [searchType args] None
           (case limit args of None \<Rightarrow> 20 | Some l \<Rightarrow> l)
           (case offset args of None \<Rightarrow> 0 | Some v \<Rightarrow> v)])"
  using search_rejected [of args e] searchSpotify_calls [of e args]
    search_accepted_calls [of args e]
  by simp

theorem search_bounds_and_defaults_witness:
  "tool_call_outcome silent_env
      (ToolSearchSpotify \<lparr>query = ''queen'', searchType = SearchTrack, limit = Some 51,
                           offset = None\<rparr>) = ([], InputError)
   \<and> tool_call_outcome silent_env
      (ToolSearchSpotify \<lparr>query = ''queen'', searchType = SearchTrack, limit = Some 0,
                           offset = None\<rparr>) = ([], InputError)
   \<and> tool_call_outcome silent_env
      (ToolSearchSpotify \<lparr>query = ''queen'', searchType = SearchTrack, limit = None,
                           offset = Some 1001\<rparr>) = ([], InputError)
   \<and> tool_call_outcome silent_env
      (ToolSearchSpotify \<lparr>query = ''queen'', searchType = SearchTrack, limit = None,
                           offset = Some (- 1)\<rparr>) = ([], InputError)
   \<and> fst (tool_call_outcome silent_env
      (ToolSearchSpotify \<lparr>query = ''queen'', searchType = SearchTrack, limit = None,
                           offset = None\<rparr>))
       = [ApiSearch ''queen'' [SearchTrack] None 20 0]
   \<and> fst (tool_call_outcome silent_env
      (ToolSearchSpotify \<lparr>query = ''queen'', searchType = SearchAlbum, limit = Some 50,
                           offset = Some 1000\<rparr>))
       = [ApiSearch ''queen'' [SearchAlbum] None 50 1000]"
  using
    search_bounds_and_defaults [where e = silent_env and args =
      "\<lparr>query = ''queen'', searchType = SearchTrack, limit = Some 51, offset = None\<rparr>"]
    search_bounds_and_defaults [where e = silent_env and args =
      "\<lparr>query = ''queen'', searchType = SearchTrack, limit = Some 0, offset = None\<rparr>"]
    search_bounds_and_defaults [where e = silent_env and args =
      "\<lparr>query = ''queen'', searchType = SearchTrack, limit = None, offset = Some 1001\<rparr>"]
    search_bounds_and_defaults [where e = silent_env and args =
      "\<lparr>query = ''queen'', searchType = SearchTrack, limit = None, offset = Some (- 1)\<rparr>"]
    search_bounds_and_defaults [where e = silent_env and args =
      "\<lparr>query = ''queen'', searchType = SearchTrack, limit = None, offset = None\<rparr>"]
    search_bounds_and_defaults [where e = silent_env and args =
      "\<lparr>query = ''queen'', searchType = SearchAlbum, limit = Some 50, offset = Some 1000\<rparr>"]
  by (simp add: silent_env_def number_between_def)

text \<open>
  Claim C10. The handler of \<^verbatim>\<open>getUserTopItems\<close> never reads the offset that its
  schema declares: two calls that differ only in the offset make the same client calls
  and have the same outcome.
\<close>

theorem getUserTopItems_ignores_offset:
  "getUserTopItems e (args\<lparr>topOffset := off\<rparr>) = getUserTopItems e args
   \<and> getUserTopItems e \<lparr>topType = ty, time_range = r, topLimit = l, topOffset = off\<rparr>
       = getUserTopItems e \<lparr>topType = ty, time_range = r, topLimit = l, topOffset = off'\<rparr>
   \<and> handler e (ToolGetUserTopItems (args\<lparr>topOffset := off\<rparr>))
       = handler e (ToolGetUserTopItems args)"
  by (simp add: getUserTopItems_def)

lemma getNowPlaying_returns:
  assumes "getNowPlaying_request e = (t, Inr cur)"
  shows "getNowPlaying e =
     (t, Inr (case cur of
                None \<Rightarrow> nothing_playing
              | Some c \<Rightarrow>
                  (case item c of
                     None \<Rightarrow> nothing_playing
                   | Some it \<Rightarrow>
                       (case isTrack it of
                          None \<Rightarrow> not_a_track
                        | Some tr \<Rightarrow> \<lparr>content = [text_block (now_playing_text c tr)]\<rparr>))))"
  using assms
  by (simp add: getNowPlaying_def await_def try_catch_def resolve_def split: option.splits)

text \<open>
  Claim C7. When the dispatch of \<^verbatim>\<open>getNowPlaying\<close> answers with no playback state,
  or with a state that has no item, the text is exactly ``Nothing is currently playing
  on Spotify''; when the item does not pass \<^verbatim>\<open>isTrack\<close> (a podcast episode, for
  one), the text is the explanatory message and nothing is thrown; otherwise the text
  reports playing or paused, the track name, the artists, the album, the elapsed and the
  total duration, and the track id.
\<close>

theorem getNowPlaying_cases:
  "(getNowPlaying_request e = (t, Inr cur)
      \<and> (cur = None \<or> (\<exists>c. cur = Some c \<and> item c = None)) \<longrightarrow>
      getNowPlaying e =
        (t, Inr \<lparr>content = [text_block ''Nothing is currently playing on Spotify'']\<rparr>))
   \<and> (getNowPlaying_request e = (t, Inr (Some c)) \<and> item c = Some it \<and> isTrack it = None \<longrightarrow>
      getNowPlaying e =
        (t, Inr \<lparr>content = [text_block
           ''Currently playing item is not a track (might be a podcast episode)'']\<rparr>))
   \<and> (getNowPlaying_request e = (t, Inr (Some c)) \<and> item c = Some it
        \<and> isTrack it = Some tr \<longrightarrow>
      getNowPlaying e =
        (t, Inr \<lparr>content = [text_block
           (''# Currently '' @ (if is_playing c then ''Playing'' else ''Paused'')
              @ newline @ newline
              @ ''**Track**: '' @ dq @ item_name it @ dq @ newline
              @ ''**Artist**: '' @ join '', '' (map artist_name (st_artists tr)) @ newline
              @ ''**Album**: '' @ st_album_name tr @ newline
              @ ''**Progress**: ''
                 @ formatDuration (case progress_ms c of None \<Rightarrow> 0 | Some ms \<Rightarrow> ms)
                 @ '' / '' @ formatDuration (item_duration_ms it) @ newline
              @ ''**ID**: '' @ item_id it)]\<rparr>)
        \<and> item_type it = ''track'' \<and> item_artists it = Some (st_artists tr)
        \<and> (\<exists>al. item_album it = Some al \<and> ref_name al = Some (st_album_name tr)))"
proof (intro conjI impI)
  assume "getNowPlaying_request e = (t, Inr cur)
      \<and> (cur = None \<or> (\<exists>c. cur = Some c \<and> item c = None))"
  then show "getNowPlaying e =
        (t, Inr \<lparr>content = [text_block ''Nothing is currently playing on Spotify'']\<rparr>)"
    using getNowPlaying_returns [of e t cur] by (auto simp add: nothing_playing_def)
next
  assume "getNowPlaying_request e = (t, Inr (Some c)) \<and> item c = Some it \<and> isTrack it = None"
  then show "getNowPlaying e =
        (t, Inr \<lparr>content = [text_block
           ''Currently playing item is not a track (might be a podcast episode)'']\<rparr>)"
    using getNowPlaying_returns [of e t "Some c"] by (simp add: not_a_track_def)
next
  assume a: "getNowPlaying_request e = (t, Inr (Some c)) \<and> item c = Some it
        \<and> isTrack it = Some tr"
  then have tr: "item_type it = ''track''" "item_artists it = Some (st_artists tr)"
    "\<exists>al. item_album it = Some al \<and> ref_name al = Some (st_album_name tr)"
    "st_name tr = item_name it" "st_id tr = item_id it"
    "st_duration_ms tr = item_duration_ms it"
    by (auto simp add: isTrack_def split: if_splits option.splits)
  from tr show "item_type it = ''track''" "item_artists it = Some (st_artists tr)"
    "\<exists>al. item_album it = Some al \<and> ref_name al = Some (st_album_name tr)"
    by simp_all
  show "getNowPlaying e =
        (t, Inr \<lparr>content = [text_block
           (''# Currently '' @ (if is_playing c then ''Playing'' else ''Paused'')
              @ newline @ newline
              @ ''**Track**: '' @ dq @ item_name it @ dq @ newline
              @ ''**Artist**: '' @ join '', '' (map artist_name (st_artists tr)) @ newline
              @ ''**Album**: '' @ st_album_name tr @ newline
              @ ''**Progress**: ''
                 @ formatDuration (case progress_ms c of None \<Rightarrow> 0 | Some ms \<Rightarrow> ms)
                 @ '' / '' @ formatDuration (item_duration_ms it) @ newline
              @ ''**ID**: '' @ item_id it)]\<rparr>)"
    using a tr(4-6) getNowPlaying_returns [of e t "Some c"]
    by (simp add: now_playing_text_def artist_names_def Let_def)
qed

lemma sample_formats:
  "formatDuration 125000 = ''2:05''" "formatDuration 61000 = ''1:01''"
  by (simp_all add: formatDuration_def padStart2_def decimal_eval)

lemma playing_env_request:
  "getNowPlaying_request (playing_env st) = ([ApiGetCurrentlyPlayingTrack], Inr st)"
  by (simp add: playing_env_def getNowPlaying_request_def handleSpotifyRequest_def call_def)

lemma isTrack_samples:
  "isTrack sample_episode = None"
  "isTrack sample_track =
     Some \<lparr>st_name = ''Bicycle Race'', st_id = ''t1'', st_duration_ms = 125000,
           st_artists = [\<lparr>artist_name = ''Queen'', artist_id = ''q1''\<rparr>],
           st_album_name = ''Jazz''\<rparr>"
  by (simp_all add: isTrack_def sample_episode_def sample_track_def)

lemma sample_track_fields:
  "item_name sample_track = ''Bicycle Race''" "item_id sample_track = ''t1''"
  "item_duration_ms sample_track = 125000"
  by (simp_all add: sample_track_def)

theorem getNowPlaying_cases_witness:
  "getNowPlaying (playing_env None) =
     ([ApiGetCurrentlyPlayingTrack],
      Inr \<lparr>content = [text_block ''Nothing is currently playing on Spotify'']\<rparr>)
   \<and> getNowPlaying
        (playing_env (Some \<lparr>is_playing = False, progress_ms = None, item = None\<rparr>)) =
     ([ApiGetCurrentlyPlayingTrack],
      Inr \<lparr>content = [text_block ''Nothing is currently playing on Spotify'']\<rparr>)
   \<and> getNowPlaying
        (playing_env (Some \<lparr>is_playing = True, progress_ms = Some 5000,
                             item = Some sample_episode\<rparr>)) =
     ([ApiGetCurrentlyPlayingTrack],
      Inr \<lparr>content = [text_block
        ''Currently playing item is not a track (might be a podcast episode)'']\<rparr>)
   \<and> getNowPlaying
        (playing_env (Some \<lparr>is_playing = False, progress_ms = Some 61000,
                             item = Some sample_track\<rparr>)) =
     ([ApiGetCurrentlyPlayingTrack],
      Inr \<lparr>content = [text_block
        (''# Currently Paused'' @ newline @ newline
           @ ''**Track**: '' @ dq @ ''Bicycle Race'' @ dq @ newline
           @ ''**Artist**: Queen'' @ newline
           @ ''**Album**: Jazz'' @ newline
           @ ''**Progress**: 1:01 / 2:05'' @ newline
           @ ''**ID**: t1'')]\<rparr>)"
proof -
  have c1: "getNowPlaying (playing_env None) =
     ([ApiGetCurrentlyPlayingTrack],
      Inr \<lparr>content = [text_block ''Nothing is currently playing on Spotify'']\<rparr>)"
    using getNowPlaying_cases [where e = "playing_env None"
        and t = "[ApiGetCurrentlyPlayingTrack]" and cur = None]
    by (simp add: playing_env_request)
  have c2: "getNowPlaying
        (playing_env (Some \<lparr>is_playing = False, progress_ms = None, item = None\<rparr>)) =
     ([ApiGetCurrentlyPlayingTrack],
      Inr \<lparr>content = [text_block ''Nothing is currently playing on Spotify'']\<rparr>)"
    using getNowPlaying_cases [where
      e = "playing_env (Some \<lparr>is_playing = False, progress_ms = None, item = None\<rparr>)"
      and t = "[ApiGetCurrentlyPlayingTrack]"
      and cur = "Some \<lparr>is_playing = False, progress_ms = None, item = None\<rparr>"]
    by (simp add: playing_env_request)
  have c3: "getNowPlaying
        (playing_env (Some \<lparr>is_playing = True, progress_ms = Some 5000,
                             item = Some sample_episode\<rparr>)) =
     ([ApiGetCurrentlyPlayingTrack],
      Inr \<lparr>content = [text_block
        ''Currently playing item is not a track (might be a podcast episode)'']\<rparr>)"
    using getNowPlaying_cases [where
      e = "playing_env (Some \<lparr>is_playing = True, progress_ms = Some 5000,
                                item = Some sample_episode\<rparr>)"
      and t = "[ApiGetCurrentlyPlayingTrack]"
      and c = "\<lparr>is_playing = True, progress_ms = Some 5000, item = Some sample_episode\<rparr>"
      and it = sample_episode and cur = None]
    by (simp add: playing_env_request isTrack_samples)
  have c4: "getNowPlaying
        (playing_env (Some \<lparr>is_playing = False, progress_ms = Some 61000,
                             item = Some sample_track\<rparr>)) =
     ([ApiGetCurrentlyPlayingTrack],
      Inr \<lparr>content = [text_block
        (''# Currently Paused'' @ newline @ newline
           @ ''**Track**: '' @ dq @ ''Bicycle Race'' @ dq @ newline
           @ ''**Artist**: Queen'' @ newline
           @ ''**Album**: Jazz'' @ newline
           @ ''**Progress**: 1:01 / 2:05'' @ newline
           @ ''**ID**: t1'')]\<rparr>)"
    using getNowPlaying_cases [where
      e = "playing_env (Some \<lparr>is_playing = False, progress_ms = Some 61000,
                                item = Some sample_track\<rparr>)"
      and t = "[ApiGetCurrentlyPlayingTrack]"
      and c = "\<lparr>is_playing = False, progress_ms = Some 61000, item = Some sample_track\<rparr>"
      and it = sample_track
      and tr = "\<lparr>st_name = ''Bicycle Race'', st_id = ''t1'', st_duration_ms = 125000,
                 st_artists = [\<lparr>artist_name = ''Queen'', artist_id = ''q1''\<rparr>],
                 st_album_name = ''Jazz''\<rparr>" and cur = None]
    by (simp add: playing_env_request isTrack_samples sample_formats sample_track_fields)
  show ?thesis
    using c1 c2 c3 c4 by (intro conjI)
qed

section \<open>Failures of the dispatch call and the shape of results\<close>

lemma await_throws: "snd m = Inl x \<Longrightarrow> snd (await m k) = Inl x"
  by (cases m) (simp add: await_def)

lemma try_catch_catches: "snd m = Inl x \<Longrightarrow> snd (try_catch m h) = snd (h x)"
  by (cases m) (simp add: try_catch_def split: prod.splits)

lemma snd_resolve: "snd (resolve v) = Inr v"
  by (simp add: resolve_def)

lemma searchSpotify_catches:
  assumes "snd (searchSpotify_request e (query sa) (searchType sa)
                  (case limit sa of None \<Rightarrow> 20 | Some l \<Rightarrow> l)
                  (case offset sa of None \<Rightarrow> 0 | Some v \<Rightarrow> v)) = Inl x"
  shows "snd (searchSpotify e sa) =
     Inr \<lparr>content = [text_block
       (''Error searching for '' @ search_type_name (searchType sa) @ ''s: '' @ error_text x)]\<rparr>"
  unfolding searchSpotify_def Let_def
  by (subst try_catch_catches [OF await_throws [OF assms]]) (rule snd_resolve)

lemma getNowPlaying_catches:
  assumes "snd (getNowPlaying_request e) = Inl x"
  shows "snd (getNowPlaying e) =
     Inr \<lparr>content = [text_block (''Error getting current track: '' @ error_text x)]\<rparr>"
  unfolding getNowPlaying_def
  by (subst try_catch_catches [OF await_throws [OF assms]]) (rule snd_resolve)

lemma addTracks_catches:
  assumes "trackIds \<noteq> []"
    and "snd (addTracksToPlaylist_request e p
                (map (\<lambda>tid. ''spotify:track:'' @ tid) trackIds) pos) = Inl x"
  shows "snd (addTracksToPlaylist e p trackIds pos) =
     Inr \<lparr>content = [text_block (''Error adding tracks to playlist: '' @ error_text x)]\<rparr>"
proof -
  have ne: "(length trackIds = 0) = False"
    using assms(1) by simp
  show ?thesis
    unfolding addTracksToPlaylist_def Let_def ne if_False
    by (simp only: try_catch_catches [OF await_throws [OF assms(2)]] snd_resolve)
qed

lemma removeTracks_catches:
  assumes "trackIds \<noteq> []"
    and "snd (removeTracksFromPlaylist_request e p
                (map (\<lambda>tid. TrackRef (''spotify:track:'' @ tid)) trackIds)) = Inl x"
  shows "snd (removeTracksFromPlaylist e p trackIds) =
     Inr \<lparr>content = [text_block
       (''Error removing tracks from playlist: '' @ error_text x)]\<rparr>"
proof -
  have ne: "(length trackIds = 0) = False"
    using assms(1) by simp
  show ?thesis
    unfolding removeTracksFromPlaylist_def Let_def ne if_False
    by (simp only: try_catch_catches [OF await_throws [OF assms(2)]] snd_resolve)
qed

lemma getUserPlaylists_propagates:
  "snd (getUserPlaylists_request e (case l of None \<Rightarrow> 50 | Some v \<Rightarrow> v)) = Inl x \<Longrightarrow>
   snd (getUserPlaylists e l) = Inl x"
  unfolding getUserPlaylists_def Let_def by (rule await_throws)

lemma getPlaylistTracks_propagates:
  "snd (getPlaylistTracks_request e p (case l of None \<Rightarrow> 50 | Some v \<Rightarrow> v)) = Inl x \<Longrightarrow>
   snd (getPlaylistTracks e p l) = Inl x"
  unfolding getPlaylistTracks_def Let_def by (rule await_throws)

lemma getRecentlyPlayed_propagates:
  "snd (getRecentlyPlayed_request e (case l of None \<Rightarrow> 50 | Some v \<Rightarrow> v)) = Inl x \<Longrightarrow>
   snd (getRecentlyPlayed e l) = Inl x"
  unfolding getRecentlyPlayed_def Let_def by (rule await_throws)

lemma getFollowedArtists_propagates:
  "snd (getFollowedArtists_request e a (case l of None \<Rightarrow> 50 | Some v \<Rightarrow> v)) = Inl x \<Longrightarrow>
   snd (getFollowedArtists e a l) = Inl x"
  unfolding getFollowedArtists_def Let_def by (rule await_throws)

lemma getUserTopItems_propagates:
  "snd (getUserTopItems_request e (topType ta) (time_range ta)
          (case topLimit ta of None \<Rightarrow> 50 | Some v \<Rightarrow> v)) = Inl x \<Longrightarrow>
   snd (getUserTopItems e ta) = Inl x"
  unfolding getUserTopItems_def Let_def by (rule await_throws)

lemma playbackAction_propagates:
  "snd (playbackAction_request e act dev) = Inl x \<Longrightarrow> snd (playbackAction e act dev) = Inl x"
  unfolding playbackAction_def by (rule await_throws)

lemma createPlaylist_propagates:
  "snd (createPlaylist_request e n d (case pub of None \<Rightarrow> False | Some b \<Rightarrow> b)) = Inl x \<Longrightarrow>
   snd (createPlaylist e n d pub) = Inl x"
  unfolding createPlaylist_def Let_def by (rule await_throws)

lemma playMusic_propagates:
  assumes "truthy (uri ua) \<or> (itemType ua \<noteq> None \<and> truthy (itemId ua))"
    and "snd (playMusic_request e (spotifyUri_of (uri ua) (itemType ua) (itemId ua))
                (itemType ua) (deviceId ua)) = Inl x"
  shows "snd (playMusic e ua) = Inl x"
  using assms(1) unfolding playMusic_def Let_def
  by (auto intro: await_throws [OF assms(2)])

lemma addToQueue_propagates:
  assumes "spotifyUri_of (uri ua) (itemType ua) (itemId ua) = Some su" "su \<noteq> []"
    and "snd (addToQueue_request e su (deviceId ua)) = Inl x"
  shows "snd (addToQueue e ua) = Inl x"
  using assms(1,2) unfolding addToQueue_def Let_def
  by (simp add: await_throws [OF assms(3)])

lemma uncaught_reaches_transport:
  "schema_accepts c \<Longrightarrow> snd (handler e c) = Inl x \<Longrightarrow> snd (tool_call_outcome e c) = Thrown x"
  by (cases "handler e c") (simp add: tool_call_outcome_def)

lemma await_returns:
  "snd (await m k) = Inr r \<Longrightarrow> \<exists>v. snd m = Inr v \<and> snd (k v) = Inr r"
  by (cases m) (auto simp add: await_def split: sum.splits prod.splits)

lemma try_catch_returns:
  "snd (try_catch m h) = Inr r \<Longrightarrow>
     snd m = Inr r \<or> (\<exists>x. snd m = Inl x \<and> snd (h x) = Inr r)"
  by (cases m) (auto simp add: try_catch_def split: sum.splits prod.splits)

lemma resolve_returns: "snd (resolve v) = Inr r \<Longrightarrow> r = v"
  by (simp add: resolve_def)

lemma searchSpotify_block:
  "snd (searchSpotify e sa) = Inr r \<Longrightarrow> \<exists>b. content r = [b] \<and> block_type b = ''text''"
  unfolding searchSpotify_def Let_def
  by (auto dest!: try_catch_returns await_returns resolve_returns simp add: text_block_def)

lemma getNowPlaying_block:
  "snd (getNowPlaying e) = Inr r \<Longrightarrow> \<exists>b. content r = [b] \<and> block_type b = ''text''"
  unfolding getNowPlaying_def
  by (auto dest!: try_catch_returns await_returns resolve_returns
      simp add: text_block_def nothing_playing_def not_a_track_def split: option.splits)

lemma getUserPlaylists_block:
  "snd (getUserPlaylists e l) = Inr r \<Longrightarrow> \<exists>b. content r = [b] \<and> block_type b = ''text''"
  unfolding getUserPlaylists_def Let_def
  by (auto dest!: await_returns resolve_returns simp add: text_block_def split: if_splits)

lemma getPlaylistTracks_block:
  "snd (getPlaylistTracks e p l) = Inr r \<Longrightarrow> \<exists>b. content r = [b] \<and> block_type b = ''text''"
  unfolding getPlaylistTracks_def Let_def
  by (auto dest!: await_returns resolve_returns simp add: text_block_def
      split: if_splits option.splits)

lemma getRecentlyPlayed_block:
  "snd (getRecentlyPlayed e l) = Inr r \<Longrightarrow> \<exists>b. content r = [b] \<and> block_type b = ''text''"
  unfolding getRecentlyPlayed_def Let_def
  by (auto dest!: await_returns resolve_returns simp add: text_block_def split: if_splits)

lemma getFollowedArtists_block:
  "snd (getFollowedArtists e a l) = Inr r \<Longrightarrow> \<exists>b. content r = [b] \<and> block_type b = ''text''"
  unfolding getFollowedArtists_def Let_def
  by (auto dest!: await_returns resolve_returns simp add: text_block_def split: if_splits)

lemma getUserTopItems_block:
  "snd (getUserTopItems e ta) = Inr r \<Longrightarrow> \<exists>b. content r = [b] \<and> block_type b = ''text''"
  unfolding getUserTopItems_def Let_def
  by (auto dest!: await_returns resolve_returns simp add: text_block_def split: if_splits)

lemma playMusic_block:
  "snd (playMusic e ua) = Inr r \<Longrightarrow> \<exists>b. content r = [b] \<and> block_type b = ''text''"
  unfolding playMusic_def Let_def
  by (auto dest!: await_returns resolve_returns
      simp add: text_block_def error_block_def must_provide_def split: if_splits)

lemma playbackAction_block:
  "snd (playbackAction e act dev) = Inr r \<Longrightarrow> \<exists>b. content r = [b] \<and> block_type b = ''text''"
  unfolding playbackAction_def
  by (auto dest!: await_returns resolve_returns simp add: text_block_def)

lemma createPlaylist_block:
  "snd (createPlaylist e n d pub) = Inr r \<Longrightarrow> \<exists>b. content r = [b] \<and> block_type b = ''text''"
  unfolding createPlaylist_def Let_def
  by (auto dest!: await_returns resolve_returns simp add: text_block_def)

lemma addTracks_block:
  "snd (addTracksToPlaylist e p ts pos) = Inr r \<Longrightarrow>
     \<exists>b. content r = [b] \<and> block_type b = ''text''"
  unfolding addTracksToPlaylist_def Let_def
  by (auto dest!: try_catch_returns await_returns resolve_returns
      simp add: text_block_def no_track_ids_def split: if_splits)

lemma addToQueue_block:
  "snd (addToQueue e ua) = Inr r \<Longrightarrow> \<exists>b. content r = [b] \<and> block_type b = ''text''"
  unfolding addToQueue_def Let_def
  by (auto dest!: await_returns resolve_returns
      simp add: text_block_def error_block_def must_provide_def split: if_splits option.splits)

lemma removeTracks_block:
  "snd (removeTracksFromPlaylist e p ts) = Inr r \<Longrightarrow>
     \<exists>b. content r = [b] \<and> block_type b = ''text''"
  unfolding removeTracksFromPlaylist_def Let_def
  by (auto dest!: try_catch_returns await_returns resolve_returns
      simp add: text_block_def no_track_ids_def split: if_splits)

text \<open>
  Claim C9. For every registered tool and every input on which its handler returns
  rather than throws, the returned envelope has exactly one content block, and the type
  tag of that block is \<^verbatim>\<open>text\<close>; its payload is a string by the type of
  \<open>block_text\<close>.
\<close>

theorem one_text_block_per_result:
  assumes "snd (handler e c) = Inr r"
  shows "\<exists>b. content r = [b] \<and> block_type b = ''text''"
proof (cases c)
  case (ToolPlayMusic ua)
  then show ?thesis using assms playMusic_block [of e ua r] by simp
next
  case (ToolPlaybackAction act dev)
  then show ?thesis using assms playbackAction_block [of e act dev r] by simp
next
  case (ToolSearchSpotify sa)
  then show ?thesis using assms searchSpotify_block [of e sa r] by simp
next
  case ToolGetNowPlaying
  then show ?thesis using assms getNowPlaying_block [of e r] by simp
next
  case (ToolGetUserPlaylists l)
  then show ?thesis using assms getUserPlaylists_block [of e l r] by simp
next
  case (ToolGetPlaylistTracks p l)
  then show ?thesis using assms getPlaylistTracks_block [of e p l r] by simp
next
  case (ToolGetRecentlyPlayed l)
  then show ?thesis using assms getRecentlyPlayed_block [of e l r] by simp
next
  case (ToolGetFollowedArtists a l)
  then show ?thesis using assms getFollowedArtists_block [of e a l r] by simp
next
  case (ToolGetUserTopItems ta)
  then show ?thesis using assms getUserTopItems_block [of e ta r] by simp
next
  case (ToolAddToQueue ua)
  then show ?thesis using assms addToQueue_block [of e ua r] by simp
next
  case (ToolAddTracksToPlaylist p ts pos)
  then show ?thesis using assms addTracks_block [of e p ts pos r] by simp
next
  case (ToolCreatePlaylist n d pub)
  then show ?thesis using assms createPlaylist_block [of e n d pub r] by simp
next
  case (ToolRemoveTracksFromPlaylist p ts)
  then show ?thesis using assms removeTracks_block [of e p ts r] by simp
qed

theorem one_text_block_per_result_witness:
  "snd (handler silent_env (ToolPlaybackAction Pause None))
     = Inr \<lparr>content = [text_block ''Playback paused'']\<rparr>
   \<and> (\<exists>b. content \<lparr>content = [text_block ''Playback paused'']\<rparr> = [b]
          \<and> block_type b = ''text'')"
proof -
  have run: "snd (handler silent_env (ToolPlaybackAction Pause None))
     = Inr \<lparr>content = [text_block ''Playback paused'']\<rparr>"
    by (simp add: playbackAction_def playbackAction_request_def eff_defs silent_env_def
        silent_api_def or_else_def)
  from one_text_block_per_result [OF run] run show ?thesis
    by simp
qed

text \<open>
  Claim C8. In \<^verbatim>\<open>searchSpotify\<close>, \<^verbatim>\<open>getNowPlaying\<close>,
  \<^verbatim>\<open>addTracksToPlaylist\<close> and \<^verbatim>\<open>removeTracksFromPlaylist\<close>, whenever the
  dispatch call throws \<open>x\<close> the handler returns a text block whose text is the
  handler's ``Error ...: '' prefix followed by the message of \<open>x\<close> (for a thrown value
  that is not an \<^verbatim>\<open>Error\<close>, its string form). In the nine other handlers the
  thrown value propagates out of the handler, and a value thrown by a handler reaches
  the transport as a failure.
\<close>

theorem local_catch_or_propagate:
  "(snd (searchSpotify_request e (query sa) (searchType sa)
           (case limit sa of None \<Rightarrow> 20 | Some l \<Rightarrow> l)
           (case offset sa of None \<Rightarrow> 0 | Some v \<Rightarrow> v)) = Inl x \<longrightarrow>
      snd (searchSpotify e sa) =
        Inr \<lparr>content = [text_block
          (''Error searching for '' @ search_type_name (searchType sa) @ ''s: ''
             @ error_text x)]\<rparr>)
   \<and> (snd (getNowPlaying_request e) = Inl x \<longrightarrow>
      snd (getNowPlaying e) =
        Inr \<lparr>content = [text_block (''Error getting current track: '' @ error_text x)]\<rparr>)
   \<and> (trackIds \<noteq> []
        \<and> snd (addTracksToPlaylist_request e p
                  (map (\<lambda>tid. ''spotify:track:'' @ tid) trackIds) pos) = Inl x \<longrightarrow>
      snd (addTracksToPlaylist e p trackIds pos) =
        Inr \<lparr>content = [text_block
          (''Error adding tracks to playlist: '' @ error_text x)]\<rparr>)
   \<and> (trackIds \<noteq> []
        \<and> snd (removeTracksFromPlaylist_request e p
                  (map (\<lambda>tid. TrackRef (''spotify:track:'' @ tid)) trackIds)) = Inl x \<longrightarrow>
      snd (removeTracksFromPlaylist e p trackIds) =
        Inr \<lparr>content = [text_block
          (''Error removing tracks from playlist: '' @ error_text x)]\<rparr>)
   \<and> (snd (getUserPlaylists_request e (case l of None \<Rightarrow> 50 | Some v \<Rightarrow> v)) = Inl x \<longrightarrow>
      snd (getUserPlaylists e l) = Inl x)
   \<and> (snd (getPlaylistTracks_request e p (case l of None \<Rightarrow> 50 | Some v \<Rightarrow> v)) = Inl x \<longrightarrow>
      snd (getPlaylistTracks e p l) = Inl x)
   \<and> (snd (getRecentlyPlayed_request e (case l of None \<Rightarrow> 50 | Some v \<Rightarrow> v)) = Inl x \<longrightarrow>
      snd (getRecentlyPlayed e l) = Inl x)
   \<and> (snd (getFollowedArtists_request e a (case l of None \<Rightarrow> 50 | Some v \<Rightarrow> v)) = Inl x \<longrightarrow>
      snd (getFollowedArtists e a l) = Inl x)
   \<and> (snd (getUserTopItems_request e (topType ta) (time_range ta)
              (case topLimit ta of None \<Rightarrow> 50 | Some v \<Rightarrow> v)) = Inl x \<longrightarrow>
      snd (getUserTopItems e ta) = Inl x)
   \<and> (snd (playbackAction_request e act dev) = Inl x \<longrightarrow>
      snd (playbackAction e act dev) = Inl x)
   \<and> (snd (createPlaylist_request e n d (case pub of None \<Rightarrow> False | Some b \<Rightarrow> b)) = Inl x \<longrightarrow>
      snd (createPlaylist e n d pub) = Inl x)
   \<and> ((truthy (uri ua) \<or> (itemType ua \<noteq> None \<and> truthy (itemId ua)))
        \<and> snd (playMusic_request e (spotifyUri_of (uri ua) (itemType ua) (itemId ua))
                  (itemType ua) (deviceId ua)) = Inl x \<longrightarrow>
      snd (playMusic e ua) = Inl x)
   \<and> (spotifyUri_of (uri ua) (itemType ua) (itemId ua) = Some su \<and> su \<noteq> []
        \<and> snd (addToQueue_request e su (deviceId ua)) = Inl x \<longrightarrow>
      snd (addToQueue e ua) = Inl x)
   \<and> (schema_accepts c \<and> snd (handler e c) = Inl x \<longrightarrow>
      snd (tool_call_outcome e c) = Thrown x)"
proof (intro conjI impI)
  show "snd (getNowPlaying e) =
        Inr \<lparr>content = [text_block (''Error getting current track: '' @ error_text x)]\<rparr>"
    if "snd (getNowPlaying_request e) = Inl x"
    using that by (rule getNowPlaying_catches)
qed ((elim conjE)?,
     (rule searchSpotify_catches addTracks_catches removeTracks_catches
        getUserPlaylists_propagates getPlaylistTracks_propagates getRecentlyPlayed_propagates
        getFollowedArtists_propagates getUserTopItems_propagates playbackAction_propagates
        createPlaylist_propagates playMusic_propagates addToQueue_propagates
        uncaught_reaches_transport; assumption))+

lemma broken_requests:
  "snd (searchSpotify_request (broken_env x) q ty lv ov) = Inl x"
  "snd (getNowPlaying_request (broken_env x)) = Inl x"
  "snd (addTracksToPlaylist_request (broken_env x) p us pos) = Inl x"
  "snd (removeTracksFromPlaylist_request (broken_env x) p rs) = Inl x"
  "snd (getUserPlaylists_request (broken_env x) lv) = Inl x"
  "snd (getPlaylistTracks_request (broken_env x) p lv) = Inl x"
  "snd (getRecentlyPlayed_request (broken_env x) lv) = Inl x"
  "snd (getFollowedArtists_request (broken_env x) a lv) = Inl x"
  "snd (getUserTopItems_request (broken_env x) tt tr lv) = Inl x"
  "snd (createPlaylist_request (broken_env x) n d b) = Inl x"
  "snd (addToQueue_request (broken_env x) su dev) = Inl x"
  by (simp_all add: searchSpotify_request_def getNowPlaying_request_def
      addTracksToPlaylist_request_def removeTracksFromPlaylist_request_def
      getUserPlaylists_request_def getPlaylistTracks_request_def getRecentlyPlayed_request_def
      getFollowedArtists_request_def getUserTopItems_request_def createPlaylist_request_def
      addToQueue_request_def handleSpotifyRequest_def call_def await_def
      broken_env_def broken_api_def)

lemma broken_player_requests:
  "snd (playbackAction_request (broken_env x) act dev) = Inl x"
  "snd (playMusic_request (broken_env x) su ty dev) = Inl x"
  by (simp_all add: playbackAction_request_def playMusic_request_def handleSpotifyRequest_def
      call_def await_def broken_env_def broken_api_def Let_def
      split: action.splits option.splits)

theorem local_catch_or_propagate_witness:
  "snd (searchSpotify (broken_env (ErrorObject ''rate limited''))
          \<lparr>query = ''queen'', searchType = SearchAlbum, limit = None, offset = None\<rparr>)
     = Inr \<lparr>content = [text_block ''Error searching for albums: rate limited'']\<rparr>
   \<and> snd (getNowPlaying (broken_env (ErrorObject ''rate limited'')))
     = Inr \<lparr>content = [text_block ''Error getting current track: rate limited'']\<rparr>
   \<and> snd (addTracksToPlaylist (broken_env (ErrorObject ''rate limited'')) ''P1'' [''t1''] None)
     = Inr \<lparr>content = [text_block ''Error adding tracks to playlist: rate limited'']\<rparr>
   \<and> snd (removeTracksFromPlaylist (broken_env (ErrorObject ''rate limited'')) ''P1'' [''t1''])
     = Inr \<lparr>content = [text_block ''Error removing tracks from playlist: rate limited'']\<rparr>
   \<and> snd (getUserPlaylists (broken_env (ErrorObject ''rate limited'')) None)
     = Inl (ErrorObject ''rate limited'')
   \<and> snd (getPlaylistTracks (broken_env (ErrorObject ''rate limited'')) ''P1'' None)
     = Inl (ErrorObject ''rate limited'')
   \<and> snd (getRecentlyPlayed (broken_env (ErrorObject ''rate limited'')) None)
     = Inl (ErrorObject ''rate limited'')
   \<and> snd (getFollowedArtists (broken_env (ErrorObject ''rate limited'')) None None)
     = Inl (ErrorObject ''rate limited'')
   \<and> snd (getUserTopItems (broken_env (ErrorObject ''rate limited''))
          \<lparr>topType = ''tracks'', time_range = ''short_term'', topLimit = None,
            topOffset = None\<rparr>)
     = Inl (ErrorObject ''rate limited'')
   \<and> snd (playbackAction (broken_env (ErrorObject ''rate limited'')) Pause None)
     = Inl (ErrorObject ''rate limited'')
   \<and> snd (createPlaylist (broken_env (ErrorObject ''rate limited'')) ''Mix'' None None)
     = Inl (ErrorObject ''rate limited'')
   \<and> snd (playMusic (broken_env (ErrorObject ''rate limited''))
          \<lparr>uri = Some ''spotify:album:a1'', itemType = None, itemId = None, deviceId = None\<rparr>)
     = Inl (ErrorObject ''rate limited'')
   \<and> snd (addToQueue (broken_env (ErrorObject ''rate limited''))
          \<lparr>uri = Some ''spotify:album:a1'', itemType = None, itemId = None, deviceId = None\<rparr>)
     = Inl (ErrorObject ''rate limited'')
   \<and> snd (tool_call_outcome (broken_env (ErrorObject ''rate limited''))
          (ToolPlaybackAction Pause None))
     = Thrown (ErrorObject ''rate limited'')"
proof -
  have h: "snd (handler (broken_env (ErrorObject ''rate limited''))
                 (ToolPlaybackAction Pause None)) = Inl (ErrorObject ''rate limited'')"
    by (simp add: playbackAction_propagates broken_player_requests)
  have u: "spotifyUri_of (Some ''spotify:album:a1'') None None = Some ''spotify:album:a1''"
    by (simp add: spotifyUri_of_def)
  show ?thesis
    using local_catch_or_propagate [where e = "broken_env (ErrorObject ''rate limited'')"
      and x = "ErrorObject ''rate limited''"
      and sa = "\<lparr>query = ''queen'', searchType = SearchAlbum, limit = None, offset = None\<rparr>"
      and trackIds = "[''t1'']" and p = "''P1''" and pos = None and l = None and a = None
      and ta = "\<lparr>topType = ''tracks'', time_range = ''short_term'', topLimit = None,
                 topOffset = None\<rparr>"
      and act = Pause and dev = None and n = "''Mix''" and d = None and pub = None
      and ua = "\<lparr>uri = Some ''spotify:album:a1'', itemType = None, itemId = None,
                 deviceId = None\<rparr>"
      and su = "''spotify:album:a1''" and c = "ToolPlaybackAction Pause None"]
    by (simp add: broken_requests broken_player_requests h u truthy_def error_text_def)
qed

section \<open>List reads and search results\<close>

lemma length_map_indexed: "length (map_indexed f xs) = length xs"
  by (simp add: map_indexed_def)

lemma nth_map_indexed: "i < length xs \<Longrightarrow> map_indexed f xs ! i = f (xs ! i) i"
  by (simp add: map_indexed_def)

lemma numbered_map_indexed:
  assumes "\<And>x i. prefix (decimal (i + 1) @ ''. '') (f x i)"
  shows "numbered_lines (map_indexed f xs)"
  unfolding numbered_lines_def
  using assms by (simp add: length_map_indexed nth_map_indexed)

lemma join_not_empty: "ls \<noteq> [] \<Longrightarrow> hd ls \<noteq> [] \<Longrightarrow> join sep ls \<noteq> []"
  by (induction sep ls rule: join.induct) simp_all

lemma numbered_first_not_empty: "numbered_lines ls \<Longrightarrow> ls \<noteq> [] \<Longrightarrow> hd ls \<noteq> []"
  unfolding numbered_lines_def
  by (cases ls) (auto simp add: prefix_def)

lemma numbered_join_not_empty: "numbered_lines ls \<Longrightarrow> ls \<noteq> [] \<Longrightarrow> join sep ls \<noteq> []"
  by (simp add: join_not_empty numbered_first_not_empty)

lemma line_prefixes:
  "prefix (decimal (i + 1) @ ''. '') (search_track_line t i)"
  "prefix (decimal (i + 1) @ ''. '') (search_album_line a i)"
  "prefix (decimal (i + 1) @ ''. '') (search_playlist_line p i)"
  "prefix (decimal (i + 1) @ ''. '') (user_playlist_line u i)"
  "prefix (decimal (i + 1) @ ''. '') (entry_line en i)"
  "prefix (decimal (i + 1) @ ''. '') (artist_line ar i)"
  "prefix (decimal (i + 1) @ ''. '') (top_item_line ty ti i)"
  by (simp_all add: search_track_line_def search_album_line_def search_playlist_line_def
      user_playlist_line_def entry_line_def artist_line_def top_item_line_def Let_def
      split: option.splits)


lemma getUserPlaylists_returns:
  assumes "getUserPlaylists_request e (case l of None \<Rightarrow> 50 | Some v \<Rightarrow> v) = (t, Inr mine)"
  shows "getUserPlaylists e l =
     (t, Inr \<lparr>content = [text_block
        (if mine = [] then ''You don't have any playlists on Spotify''
         else ''# Your Spotify Playlists'' @ newline @ newline
                @ join newline (map_indexed user_playlist_line mine))]\<rparr>)"
  unfolding getUserPlaylists_def Let_def assms
  by (simp add: await_def resolve_def)

lemma getPlaylistTracks_returns:
  assumes "getPlaylistTracks_request e p (case l of None \<Rightarrow> 50 | Some v \<Rightarrow> v) = (t, Inr page)"
  shows "getPlaylistTracks e p l =
     (t, Inr \<lparr>content = [text_block
        (case page of
           None \<Rightarrow> ''This playlist doesn't have any tracks''
         | Some entries \<Rightarrow>
             if entries = [] then ''This playlist doesn't have any tracks''
             else ''# Tracks in Playlist'' @ newline @ newline
                    @ join newline (map_indexed entry_line entries))]\<rparr>)"
  unfolding getPlaylistTracks_def Let_def assms
  by (simp add: await_def resolve_def split: option.splits)

lemma getRecentlyPlayed_returns:
  assumes "getRecentlyPlayed_request e (case l of None \<Rightarrow> 50 | Some v \<Rightarrow> v) = (t, Inr entries)"
  shows "getRecentlyPlayed e l =
     (t, Inr \<lparr>content = [text_block
        (if entries = [] then ''You don't have any recently played tracks on Spotify''
         else ''# Recently Played Tracks'' @ newline @ newline
                @ join newline (map_indexed entry_line entries))]\<rparr>)"
  unfolding getRecentlyPlayed_def Let_def assms
  by (simp add: await_def resolve_def)

lemma getFollowedArtists_returns:
  assumes "getFollowedArtists_request e a (case l of None \<Rightarrow> 50 | Some v \<Rightarrow> v)
             = (t, Inr artists)"
  shows "getFollowedArtists e a l =
     (t, Inr \<lparr>content = [text_block
        (if artists = [] then ''User doesn't follow any artists on Spotify''
         else ''# Artists You Follow'' @ newline @ newline
                @ join newline (map_indexed artist_line artists))]\<rparr>)"
  unfolding getFollowedArtists_def Let_def assms
  by (simp add: await_def resolve_def)

lemma getUserTopItems_returns:
  assumes "getUserTopItems_request e (topType ta) (time_range ta)
             (case topLimit ta of None \<Rightarrow> 50 | Some v \<Rightarrow> v) = (t, Inr tops)"
  shows "getUserTopItems e ta =
     (t, Inr \<lparr>content = [text_block
        (if tops = [] then ''User doesn't have any top '' @ topType ta @ '' on Spotify''
         else ''# Top '' @ topType ta @ newline @ newline
                @ join newline (map_indexed (top_item_line (topType ta)) tops))]\<rparr>)"
  unfolding getUserTopItems_def Let_def assms
  by (simp add: await_def resolve_def)

lemma formattedResults_lines:
  "formattedResults ty results = join newline (result_lines ty results)"
  by (cases ty) (simp_all split: option.splits)

lemma length_result_lines: "length (result_lines ty results) = result_count ty results"
  by (cases ty) (simp_all add: length_map_indexed split: option.splits)

lemma numbered_result_lines: "numbered_lines (result_lines ty results)"
proof -
  have "numbered_lines []" by (simp add: numbered_lines_def)
  then show ?thesis
    by (cases ty) (auto intro!: numbered_map_indexed line_prefixes split: option.splits)
qed

lemma formattedResults_empty_iff:
  "formattedResults ty results = [] \<longleftrightarrow> result_count ty results = 0"
proof
  assume "formattedResults ty results = []"
  then have "result_lines ty results = []"
    using numbered_join_not_empty [OF numbered_result_lines, of ty results newline]
    by (auto simp add: formattedResults_lines)
  then show "result_count ty results = 0"
    using length_result_lines [of ty results] by simp
next
  assume "result_count ty results = 0"
  then have "result_lines ty results = []"
    using length_result_lines [of ty results] by simp
  then show "formattedResults ty results = []"
    by (simp add: formattedResults_lines)
qed

lemma searchSpotify_returns:
  assumes "searchSpotify_request e (query sa) (searchType sa)
             (case limit sa of None \<Rightarrow> 20 | Some l \<Rightarrow> l)
             (case offset sa of None \<Rightarrow> 0 | Some v \<Rightarrow> v) = (t, Inr results)"
  shows "searchSpotify e sa =
     (t, Inr \<lparr>content = [text_block
        (if result_count (searchType sa) results = 0
         then ''No '' @ search_type_name (searchType sa) @ '' results found for ''
                @ dq @ query sa @ dq
         else ''# Search results for '' @ dq @ query sa @ dq @ '' (type: ''
                @ search_type_name (searchType sa) @ '')'' @ newline @ newline
                @ join newline (result_lines (searchType sa) results))]\<rparr>)"
proof -
  have "length (formattedResults (searchType sa) results) > 0
          \<longleftrightarrow> result_count (searchType sa) results \<noteq> 0"
    using formattedResults_empty_iff [of "searchType sa" results] by simp
  then show ?thesis
    unfolding searchSpotify_def Let_def assms
    by (simp add: await_def try_catch_def resolve_def formattedResults_lines)
qed

lemma removed_track_line:
  "i < length entries \<Longrightarrow> entry_track (entries ! i) = None \<Longrightarrow>
     map_indexed entry_line entries ! i = decimal (i + 1) @ ''. [Removed track]''"
  by (simp add: nth_map_indexed entry_line_def)

text \<open>
  Claim C6. For \<^verbatim>\<open>getUserPlaylists\<close>, \<^verbatim>\<open>getPlaylistTracks\<close>,
  \<^verbatim>\<open>getRecentlyPlayed\<close>, \<^verbatim>\<open>getFollowedArtists\<close>, \<^verbatim>\<open>getUserTopItems\<close>
  and \<^verbatim>\<open>searchSpotify\<close>: whenever the dispatch answers, an empty result set gives
  the handler's ``none'' message and never a listing, and a non-empty one gives the
  heading followed by the lines joined with newlines. There is one line per item, line
  \<open>i\<close> (from 0) begins with \<open>i + 1\<close>, a full stop and a space, an entry whose track is
  missing is the line ``[Removed track]'' under its number, and a non-empty numbered
  listing is not blank.
\<close>

theorem list_reads_render_numbered_listings:
  "(getUserPlaylists_request e (case l of None \<Rightarrow> 50 | Some v \<Rightarrow> v) = (t, Inr mine) \<longrightarrow>
      getUserPlaylists e l =
        (t, Inr \<lparr>content = [text_block
           (if mine = [] then ''You don't have any playlists on Spotify''
            else ''# Your Spotify Playlists'' @ newline @ newline
                   @ join newline (map_indexed user_playlist_line mine))]\<rparr>))
   \<and> (getPlaylistTracks_request e p (case l of None \<Rightarrow> 50 | Some v \<Rightarrow> v) = (t, Inr page) \<longrightarrow>
      getPlaylistTracks e p l =
        (t, Inr \<lparr>content = [text_block
           (case page of
              None \<Rightarrow> ''This playlist doesn't have any tracks''
            | Some items \<Rightarrow>
                if items = [] then ''This playlist doesn't have any tracks''
                else ''# Tracks in Playlist'' @ newline @ newline
                       @ join newline (map_indexed entry_line items))]\<rparr>))
   \<and> (getRecentlyPlayed_request e (case l of None \<Rightarrow> 50 | Some v \<Rightarrow> v) = (t, Inr recent) \<longrightarrow>
      getRecentlyPlayed e l =
        (t, Inr \<lparr>content = [text_block
           (if recent = [] then ''You don't have any recently played tracks on Spotify''
            else ''# Recently Played Tracks'' @ newline @ newline
                   @ join newline (map_indexed entry_line recent))]\<rparr>))
   \<and> (getFollowedArtists_request e a (case l of None \<Rightarrow> 50 | Some v \<Rightarrow> v)
          = (t, Inr artists) \<longrightarrow>
      getFollowedArtists e a l =
        (t, Inr \<lparr>content = [text_block
           (if artists = [] then ''User doesn't follow any artists on Spotify''
            else ''# Artists You Follow'' @ newline @ newline
                   @ join newline (map_indexed artist_line artists))]\<rparr>))
   \<and> (getUserTopItems_request e (topType ta) (time_range ta)
          (case topLimit ta of None \<Rightarrow> 50 | Some v \<Rightarrow> v) = (t, Inr tops) \<longrightarrow>
      getUserTopItems e ta =
        (t, Inr \<lparr>content = [text_block
           (if tops = [] then ''User doesn't have any top '' @ topType ta @ '' on Spotify''
            else ''# Top '' @ topType ta @ newline @ newline
                   @ join newline (map_indexed (top_item_line (topType ta)) tops))]\<rparr>))
   \<and> (searchSpotify_request e (query sa) (searchType sa)
          (case limit sa of None \<Rightarrow> 20 | Some v \<Rightarrow> v)
          (case offset sa of None \<Rightarrow> 0 | Some v \<Rightarrow> v) = (t, Inr results) \<longrightarrow>
      searchSpotify e sa =
        (t, Inr \<lparr>content = [text_block
           (if result_count (searchType sa) results = 0
            then ''No '' @ search_type_name (searchType sa) @ '' results found for ''
                   @ dq @ query sa @ dq
            else ''# Search results for '' @ dq @ query sa @ dq @ '' (type: ''
                   @ search_type_name (searchType sa) @ '')'' @ newline @ newline
                   @ join newline (result_lines (searchType sa) results))]\<rparr>))
   \<and> length (map_indexed user_playlist_line mine) = length mine
   \<and> numbered_lines (map_indexed user_playlist_line mine)
   \<and> length (map_indexed entry_line entries) = length entries
   \<and> numbered_lines (map_indexed entry_line entries)
   \<and> length (map_indexed artist_line artists) = length artists
   \<and> numbered_lines (map_indexed artist_line artists)
   \<and> length (map_indexed (top_item_line ty) tops) = length tops
   \<and> numbered_lines (map_indexed (top_item_line ty) tops)
   \<and> length (result_lines sty results) = result_count sty results
   \<and> numbered_lines (result_lines sty results)
   \<and> (i < length entries \<and> entry_track (entries ! i) = None \<longrightarrow>
        map_indexed entry_line entries ! i = decimal (i + 1) @ ''. [Removed track]'')
   \<and> (numbered_lines ls \<and> ls \<noteq> [] \<longrightarrow> join newline ls \<noteq> [])"
proof (intro conjI impI)
  show "numbered_lines (map_indexed user_playlist_line mine)"
    "numbered_lines (map_indexed entry_line entries)"
    "numbered_lines (map_indexed artist_line artists)"
    "numbered_lines (map_indexed (top_item_line ty) tops)"
    by (intro numbered_map_indexed line_prefixes)+
qed ((elim conjE)?,
     (rule getUserPlaylists_returns getPlaylistTracks_returns getRecentlyPlayed_returns
        getFollowedArtists_returns getUserTopItems_returns searchSpotify_returns
        length_map_indexed length_result_lines numbered_result_lines removed_track_line
        numbered_join_not_empty; assumption?))+

lemma silent_list_requests:
  "getUserPlaylists_request silent_env lv = ([ApiPlaylists lv], Inr [])"
  "getPlaylistTracks_request silent_env p lv = ([ApiGetPlaylistItems p None None lv], Inr (Some []))"
  "getRecentlyPlayed_request silent_env lv = ([ApiGetRecentlyPlayedTracks lv], Inr [])"
  "getFollowedArtists_request silent_env a lv = ([ApiFollowedArtists a lv], Inr [])"
  "getUserTopItems_request silent_env tt tr lv = ([ApiTopItems tt tr lv], Inr [])"
  "searchSpotify_request silent_env q sty lv ov =
     ([ApiSearch q [sty] None lv ov],
      Inr \<lparr>result_tracks = None, result_albums = None, result_playlists = None\<rparr>)"
  by (simp_all add: getUserPlaylists_request_def getPlaylistTracks_request_def
      getRecentlyPlayed_request_def getFollowedArtists_request_def getUserTopItems_request_def
      searchSpotify_request_def handleSpotifyRequest_def call_def silent_env_def silent_api_def)

lemma sample_list_requests:
  "getUserPlaylists_request sample_listing_env lv =
     ([ApiPlaylists lv], Inr [\<lparr>up_name = ''Mix'', up_id = ''P1'', up_tracks_total = Some 12\<rparr>])"
  "getPlaylistTracks_request sample_listing_env p lv =
     ([ApiGetPlaylistItems p None None lv], Inr (Some sample_entries))"
  "getRecentlyPlayed_request sample_listing_env lv =
     ([ApiGetRecentlyPlayedTracks lv], Inr sample_entries)"
  "getFollowedArtists_request sample_listing_env a lv =
     ([ApiFollowedArtists a lv], Inr [sample_artist])"
  "getUserTopItems_request sample_listing_env tt tr lv =
     ([ApiTopItems tt tr lv],
      Inr [\<lparr>top_name = ''Queen'', top_id = ''q1'', top_artists = None\<rparr>])"
  "searchSpotify_request sample_listing_env q sty lv ov =
     ([ApiSearch q [sty] None lv ov],
      Inr \<lparr>result_tracks = Some [\<lparr>track_name = ''Bicycle Race'', track_id = ''t1'',
                                   track_artists = [sample_artist],
                                   track_duration_ms = 125000\<rparr>],
            result_albums = Some [], result_playlists = Some [None]\<rparr>)"
  by (simp_all add: getUserPlaylists_request_def getPlaylistTracks_request_def
      getRecentlyPlayed_request_def getFollowedArtists_request_def getUserTopItems_request_def
      searchSpotify_request_def handleSpotifyRequest_def call_def sample_listing_env_def
      listing_env_def)

lemma sample_lines:
  "map_indexed entry_line sample_entries =
     [''1. [Removed track]'',
      ''2. '' @ dq @ ''Bicycle Race'' @ dq @ '' by Queen (2:05) - ID: t1'']"
  "map_indexed user_playlist_line
     [\<lparr>up_name = ''Mix'', up_id = ''P1'', up_tracks_total = Some 12\<rparr>] =
     [''1. '' @ dq @ ''Mix'' @ dq @ '' (12 tracks) - ID: P1'']"
  "map_indexed artist_line [sample_artist] = [''1. '' @ dq @ ''Queen'' @ dq @ '' - ID: q1'']"
  "map_indexed (top_item_line ''artists'')
     [\<lparr>top_name = ''Queen'', top_id = ''q1'', top_artists = None\<rparr>] =
     [''1. '' @ dq @ ''Queen'' @ dq @ '' - ID: q1'']"
  "map_indexed search_track_line
     [\<lparr>track_name = ''Bicycle Race'', track_id = ''t1'', track_artists = [sample_artist],
       track_duration_ms = 125000\<rparr>] =
     [''1. '' @ dq @ ''Bicycle Race'' @ dq @ '' by Queen (2:05) - ID: t1'']"
  "map_indexed search_playlist_line [None] =
     [''1. '' @ dq @ ''Unknown Playlist (No description tracks)'' @ dq
        @ '' by undefined - ID: undefined'']"
  by (simp_all add: map_indexed_def sample_entries_def entry_line_def user_playlist_line_def
      artist_line_def top_item_line_def search_track_line_def search_playlist_line_def
      isTrack_samples artist_names_def sample_artist_def decimal_eval digit_char_Suc
      sample_formats)

theorem list_reads_render_numbered_listings_witness:
  "getUserPlaylists silent_env None =
     ([ApiPlaylists 50],
      Inr \<lparr>content = [text_block ''You don't have any playlists on Spotify'']\<rparr>)
   \<and> getPlaylistTracks silent_env ''P1'' None =
     ([ApiGetPlaylistItems ''P1'' None None 50],
      Inr \<lparr>content = [text_block ''This playlist doesn't have any tracks'']\<rparr>)
   \<and> getRecentlyPlayed silent_env None =
     ([ApiGetRecentlyPlayedTracks 50],
      Inr \<lparr>content = [text_block
        ''You don't have any recently played tracks on Spotify'']\<rparr>)
   \<and> getFollowedArtists silent_env None None =
     ([ApiFollowedArtists None 50],
      Inr \<lparr>content = [text_block ''User doesn't follow any artists on Spotify'']\<rparr>)
   \<and> getUserTopItems silent_env
        \<lparr>topType = ''artists'', time_range = ''short_term'', topLimit = None,
          topOffset = None\<rparr> =
     ([ApiTopItems ''artists'' ''short_term'' 50],
      Inr \<lparr>content = [text_block ''User doesn't have any top artists on Spotify'']\<rparr>)
   \<and> searchSpotify silent_env
        \<lparr>query = ''queen'', searchType = SearchTrack, limit = None, offset = None\<rparr> =
     ([ApiSearch ''queen'' [SearchTrack] None 20 0],
      Inr \<lparr>content = [text_block
        (''No track results found for '' @ dq @ ''queen'' @ dq)]\<rparr>)
   \<and> getUserPlaylists sample_listing_env None =
     ([ApiPlaylists 50],
      Inr \<lparr>content = [text_block
        (''# Your Spotify Playlists'' @ newline @ newline
           @ ''1. '' @ dq @ ''Mix'' @ dq @ '' (12 tracks) - ID: P1'')]\<rparr>)
   \<and> getPlaylistTracks sample_listing_env ''P1'' None =
     ([ApiGetPlaylistItems ''P1'' None None 50],
      Inr \<lparr>content = [text_block
        (''# Tracks in Playlist'' @ newline @ newline
           @ ''1. [Removed track]'' @ newline
           @ ''2. '' @ dq @ ''Bicycle Race'' @ dq @ '' by Queen (2:05) - ID: t1'')]\<rparr>)
   \<and> getRecentlyPlayed sample_listing_env None =
     ([ApiGetRecentlyPlayedTracks 50],
      Inr \<lparr>content = [text_block
        (''# Recently Played Tracks'' @ newline @ newline
           @ ''1. [Removed track]'' @ newline
           @ ''2. '' @ dq @ ''Bicycle Race'' @ dq @ '' by Queen (2:05) - ID: t1'')]\<rparr>)
   \<and> getFollowedArtists sample_listing_env None None =
     ([ApiFollowedArtists None 50],
      Inr \<lparr>content = [text_block
        (''# Artists You Follow'' @ newline @ newline
           @ ''1. '' @ dq @ ''Queen'' @ dq @ '' - ID: q1'')]\<rparr>)
   \<and> getUserTopItems sample_listing_env
        \<lparr>topType = ''artists'', time_range = ''short_term'', topLimit = None,
          topOffset = None\<rparr> =
     ([ApiTopItems ''artists'' ''short_term'' 50],
      Inr \<lparr>content = [text_block
        (''# Top artists'' @ newline @ newline
           @ ''1. '' @ dq @ ''Queen'' @ dq @ '' - ID: q1'')]\<rparr>)
   \<and> searchSpotify sample_listing_env
        \<lparr>query = ''queen'', searchType = SearchTrack, limit = None, offset = None\<rparr> =
     ([ApiSearch ''queen'' [SearchTrack] None 20 0],
      Inr \<lparr>content = [text_block
        (''# Search results for '' @ dq @ ''queen'' @ dq @ '' (type: track)''
           @ newline @ newline
           @ ''1. '' @ dq @ ''Bicycle Race'' @ dq @ '' by Queen (2:05) - ID: t1'')]\<rparr>)
   \<and> searchSpotify sample_listing_env
        \<lparr>query = ''queen'', searchType = SearchAlbum, limit = None, offset = None\<rparr> =
     ([ApiSearch ''queen'' [SearchAlbum] None 20 0],
      Inr \<lparr>content = [text_block
        (''No album results found for '' @ dq @ ''queen'' @ dq)]\<rparr>)
   \<and> map_indexed entry_line sample_entries ! 0 = ''1. [Removed track]''
   \<and> join newline (map_indexed entry_line sample_entries) \<noteq> []"
proof -
  note T = list_reads_render_numbered_listings
  have e1: "getUserPlaylists silent_env None =
     ([ApiPlaylists 50],
      Inr \<lparr>content = [text_block ''You don't have any playlists on Spotify'']\<rparr>)"
    using T [where e = silent_env and l = None and t = "[ApiPlaylists 50]" and mine = "[]",
        THEN conjunct1]
    by (simp add: silent_list_requests)
  have e2: "getPlaylistTracks silent_env ''P1'' None =
     ([ApiGetPlaylistItems ''P1'' None None 50],
      Inr \<lparr>content = [text_block ''This playlist doesn't have any tracks'']\<rparr>)"
    using T [where e = silent_env and l = None and p = "''P1''"
        and t = "[ApiGetPlaylistItems ''P1'' None None 50]" and page = "Some []",
        THEN conjunct2, THEN conjunct1]
    by (simp add: silent_list_requests)
  have e3: "getRecentlyPlayed silent_env None =
     ([ApiGetRecentlyPlayedTracks 50],
      Inr \<lparr>content = [text_block
        ''You don't have any recently played tracks on Spotify'']\<rparr>)"
    using T [where e = silent_env and l = None and t = "[ApiGetRecentlyPlayedTracks 50]"
        and recent = "[]", THEN conjunct2, THEN conjunct2, THEN conjunct1]
    by (simp add: silent_list_requests)
  have e4: "getFollowedArtists silent_env None None =
     ([ApiFollowedArtists None 50],
      Inr \<lparr>content = [text_block ''User doesn't follow any artists on Spotify'']\<rparr>)"
    using T [where e = silent_env and l = None and a = None
        and t = "[ApiFollowedArtists None 50]" and artists = "[]", THEN conjunct2, THEN conjunct2, THEN conjunct2, THEN conjunct1]
    by (simp add: silent_list_requests)
  have e5: "getUserTopItems silent_env
        \<lparr>topType = ''artists'', time_range = ''short_term'', topLimit = None,
          topOffset = None\<rparr> =
     ([ApiTopItems ''artists'' ''short_term'' 50],
      Inr \<lparr>content = [text_block ''User doesn't have any top artists on Spotify'']\<rparr>)"
    using T [where e = silent_env
        and ta = "\<lparr>topType = ''artists'', time_range = ''short_term'', topLimit = None,
                   topOffset = None\<rparr>"
        and t = "[ApiTopItems ''artists'' ''short_term'' 50]" and tops = "[]", THEN conjunct2, THEN conjunct2, THEN conjunct2, THEN conjunct2, THEN conjunct1]
    by (simp add: silent_list_requests)
  have e6: "searchSpotify silent_env
        \<lparr>query = ''queen'', searchType = SearchTrack, limit = None, offset = None\<rparr> =
     ([ApiSearch ''queen'' [SearchTrack] None 20 0],
      Inr \<lparr>content = [text_block
        (''No track results found for '' @ dq @ ''queen'' @ dq)]\<rparr>)"
    using T [where e = silent_env
        and sa = "\<lparr>query = ''queen'', searchType = SearchTrack, limit = None,
                   offset = None\<rparr>"
        and t = "[ApiSearch ''queen'' [SearchTrack] None 20 0]"
        and results = "\<lparr>result_tracks = None, result_albums = None,
                        result_playlists = None\<rparr>", THEN conjunct2, THEN conjunct2, THEN conjunct2, THEN conjunct2, THEN conjunct2, THEN conjunct1]
    by (simp add: silent_list_requests)
  have n1: "getUserPlaylists sample_listing_env None =
     ([ApiPlaylists 50],
      Inr \<lparr>content = [text_block
        (''# Your Spotify Playlists'' @ newline @ newline
           @ ''1. '' @ dq @ ''Mix'' @ dq @ '' (12 tracks) - ID: P1'')]\<rparr>)"
    using T [where e = sample_listing_env and l = None and t = "[ApiPlaylists 50]"
        and mine = "[\<lparr>up_name = ''Mix'', up_id = ''P1'', up_tracks_total = Some 12\<rparr>]",
        THEN conjunct1]
    by (simp add: sample_list_requests sample_lines)
  have n2: "getPlaylistTracks sample_listing_env ''P1'' None =
     ([ApiGetPlaylistItems ''P1'' None None 50],
      Inr \<lparr>content = [text_block
        (''# Tracks in Playlist'' @ newline @ newline
           @ ''1. [Removed track]'' @ newline
           @ ''2. '' @ dq @ ''Bicycle Race'' @ dq @ '' by Queen (2:05) - ID: t1'')]\<rparr>)"
    using T [where e = sample_listing_env and l = None and p = "''P1''"
        and t = "[ApiGetPlaylistItems ''P1'' None None 50]" and page = "Some sample_entries",
        THEN conjunct2, THEN conjunct1]
    by (simp add: sample_list_requests sample_lines) (simp add: sample_entries_def)
  have n3: "getRecentlyPlayed sample_listing_env None =
     ([ApiGetRecentlyPlayedTracks 50],
      Inr \<lparr>content = [text_block
        (''# Recently Played Tracks'' @ newline @ newline
           @ ''1. [Removed track]'' @ newline
           @ ''2. '' @ dq @ ''Bicycle Race'' @ dq @ '' by Queen (2:05) - ID: t1'')]\<rparr>)"
    using T [where e = sample_listing_env and l = None
        and t = "[ApiGetRecentlyPlayedTracks 50]" and recent = sample_entries,
        THEN conjunct2, THEN conjunct2, THEN conjunct1]
    by (simp add: sample_list_requests sample_lines) (simp add: sample_entries_def)
  have n4: "getFollowedArtists sample_listing_env None None =
     ([ApiFollowedArtists None 50],
      Inr \<lparr>content = [text_block
        (''# Artists You Follow'' @ newline @ newline
           @ ''1. '' @ dq @ ''Queen'' @ dq @ '' - ID: q1'')]\<rparr>)"
    using T [where e = sample_listing_env and l = None and a = None
        and t = "[ApiFollowedArtists None 50]" and artists = "[sample_artist]",
        THEN conjunct2, THEN conjunct2, THEN conjunct2, THEN conjunct1]
    by (simp add: sample_list_requests sample_lines)
  have n5: "getUserTopItems sample_listing_env
        \<lparr>topType = ''artists'', time_range = ''short_term'', topLimit = None,
          topOffset = None\<rparr> =
     ([ApiTopItems ''artists'' ''short_term'' 50],
      Inr \<lparr>content = [text_block
        (''# Top artists'' @ newline @ newline
           @ ''1. '' @ dq @ ''Queen'' @ dq @ '' - ID: q1'')]\<rparr>)"
    using T [where e = sample_listing_env
        and ta = "\<lparr>topType = ''artists'', time_range = ''short_term'', topLimit = None,
                   topOffset = None\<rparr>"
        and t = "[ApiTopItems ''artists'' ''short_term'' 50]"
        and tops = "[\<lparr>top_name = ''Queen'', top_id = ''q1'', top_artists = None\<rparr>]",
        THEN conjunct2, THEN conjunct2, THEN conjunct2, THEN conjunct2, THEN conjunct1]
    by (simp add: sample_list_requests sample_lines)
  have n6: "searchSpotify sample_listing_env
        \<lparr>query = ''queen'', searchType = SearchTrack, limit = None, offset = None\<rparr> =
     ([ApiSearch ''queen'' [SearchTrack] None 20 0],
      Inr \<lparr>content = [text_block
        (''# Search results for '' @ dq @ ''queen'' @ dq @ '' (type: track)''
           @ newline @ newline
           @ ''1. '' @ dq @ ''Bicycle Race'' @ dq @ '' by Queen (2:05) - ID: t1'')]\<rparr>)"
    using T [where e = sample_listing_env
        and sa = "\<lparr>query = ''queen'', searchType = SearchTrack, limit = None,
                   offset = None\<rparr>"
        and t = "[ApiSearch ''queen'' [SearchTrack] None 20 0]"
        and results = "\<lparr>result_tracks = Some [\<lparr>track_name = ''Bicycle Race'',
                            track_id = ''t1'', track_artists = [sample_artist],
                            track_duration_ms = 125000\<rparr>],
                        result_albums = Some [], result_playlists = Some [None]\<rparr>",
        THEN conjunct2, THEN conjunct2, THEN conjunct2, THEN conjunct2, THEN conjunct2, THEN conjunct1]
    by (simp add: sample_list_requests sample_lines)
  have n7: "searchSpotify sample_listing_env
        \<lparr>query = ''queen'', searchType = SearchAlbum, limit = None, offset = None\<rparr> =
     ([ApiSearch ''queen'' [SearchAlbum] None 20 0],
      Inr \<lparr>content = [text_block
        (''No album results found for '' @ dq @ ''queen'' @ dq)]\<rparr>)"
    using T [where e = sample_listing_env
        and sa = "\<lparr>query = ''queen'', searchType = SearchAlbum, limit = None,
                   offset = None\<rparr>"
        and t = "[ApiSearch ''queen'' [SearchAlbum] None 20 0]"
        and results = "\<lparr>result_tracks = Some [\<lparr>track_name = ''Bicycle Race'',
                            track_id = ''t1'', track_artists = [sample_artist],
                            track_duration_ms = 125000\<rparr>],
                        result_albums = Some [], result_playlists = Some [None]\<rparr>",
        THEN conjunct2, THEN conjunct2, THEN conjunct2, THEN conjunct2, THEN conjunct2, THEN conjunct1]
    by (simp add: sample_list_requests)
  have r1: "map_indexed entry_line sample_entries ! 0 = ''1. [Removed track]''"
    using T [where entries = sample_entries and i = 0, THEN conjunct2, THEN conjunct2, THEN conjunct2, THEN conjunct2, THEN conjunct2, THEN conjunct2, THEN conjunct2, THEN conjunct2, THEN conjunct2, THEN conjunct2, THEN conjunct2, THEN conjunct2, THEN conjunct2, THEN conjunct2, THEN conjunct2, THEN conjunct2, THEN conjunct1]
    by (simp add: sample_entries_def decimal_eval)
  have r2: "join newline (map_indexed entry_line sample_entries) \<noteq> []"
    using T [where entries = sample_entries, THEN conjunct2, THEN conjunct2, THEN conjunct2, THEN conjunct2, THEN conjunct2, THEN conjunct2, THEN conjunct2, THEN conjunct2, THEN conjunct2, THEN conjunct1]
      T [where ls = "map_indexed entry_line sample_entries",
        THEN conjunct2, THEN conjunct2, THEN conjunct2, THEN conjunct2, THEN conjunct2, THEN conjunct2, THEN conjunct2, THEN conjunct2, THEN conjunct2, THEN conjunct2, THEN conjunct2, THEN conjunct2, THEN conjunct2, THEN conjunct2, THEN conjunct2, THEN conjunct2, THEN conjunct2]
    by (simp add: sample_lines)
  show ?thesis
    using e1 e2 e3 e4 e5 e6 n1 n2 n3 n4 n5 n6 n7 r1 r2 by (intro conjI)
qed

end
